theory Spec2Isabelle
  imports Complex_Main "HOL-Library.Sublist" "HOL-Library.List_Lexorder"
begin

section \<open>Python values\<close>

text \<open>
  A Python \<open>str\<close> is a sequence of Unicode code points. Attribute names, dictionary keys and
  error messages are written as HOL strings; text data is a list of code points, ordered
  lexicographically (the order of the storage service on string attributes).
\<close>

type_synonym pystr = "nat list"

definition str :: "string \<Rightarrow> pystr" where
  "str s = map of_char s"

datatype py_error = ValueError | TypeError | AttributeError | ClientError string

text \<open>\<open>str(e)\<close>: a storage error carries its message, a built-in error is shown by its class.\<close>

fun str_of_error :: "py_error \<Rightarrow> string" where
  "str_of_error ValueError = ''ValueError''"
| "str_of_error TypeError = ''TypeError''"
| "str_of_error AttributeError = ''AttributeError''"
| "str_of_error (ClientError m) = m"

text \<open>
  The values that travel through the program: \<open>None\<close>, booleans, numbers (an abstract
  carrier \<open>'n\<close> with Python's \<open>0\<close>, \<open>1\<close>, \<open>+\<close> and \<open>-\<close>; rounding is not modelled), strings,
  lists and dictionaries.
\<close>

datatype 'n pyval =
    PNone
  | PBool bool
  | PNum 'n
  | PStr pystr
  | PList "'n pyval list"
  | PDict "(string \<times> 'n pyval) list"

type_synonym 'n item = "string \<Rightarrow> 'n pyval option"

text \<open>An item is an attribute map of the table; a Python dictionary keeps its entries in order.\<close>

type_synonym 'n pydict = "(string \<times> 'n pyval) list"

text \<open>The uniform result dictionary: \<open>{'success': False, 'error': ...}\<close> or a success payload.\<close>

datatype 'a result = Failure string | Success 'a

fun opt_str :: "pystr option \<Rightarrow> 'n pyval" where
  "opt_str None = PNone"
| "opt_str (Some s) = PStr s"

fun opt_num :: "'n option \<Rightarrow> 'n pyval" where
  "opt_num None = PNone"
| "opt_num (Some a) = PNum a"

text \<open>Truthiness of a value (\<open>if v\<close>, \<open>not v\<close>, \<open>v or d\<close>).\<close>

fun truthy :: "('n::zero) pyval \<Rightarrow> bool" where
  "truthy PNone = False"
| "truthy (PBool b) = b"
| "truthy (PNum a) = (a \<noteq> 0)"
| "truthy (PStr s) = (s \<noteq> [])"
| "truthy (PList xs) = (xs \<noteq> [])"
| "truthy (PDict kv) = (kv \<noteq> [])"

text \<open>\<open>{k: v for k, v in item.items() if v is not None}\<close>\<close>

definition drop_none :: "'n item \<Rightarrow> 'n item" where
  "drop_none m = (\<lambda>k. if m k = Some PNone then None else m k)"

section \<open>Dates\<close>

record datetime =
  dt_year :: nat
  dt_month :: nat
  dt_day :: nat
  dt_hour :: nat
  dt_minute :: nat
  dt_second :: nat
  dt_microsecond :: nat

definition is_leap :: "nat \<Rightarrow> bool" where
  "is_leap y = (y mod 4 = 0 \<and> (y mod 100 \<noteq> 0 \<or> y mod 400 = 0))"

definition days_in_month :: "nat \<Rightarrow> nat \<Rightarrow> nat" where
  "days_in_month y m =
     (if m = 2 then (if is_leap y then 29 else 28)
      else if m = 4 \<or> m = 6 \<or> m = 9 \<or> m = 11 then 30 else 31)"

text \<open>\<open>datetime(year, month, day)\<close> raises \<open>ValueError\<close> outside the calendar.\<close>

definition py_datetime :: "int \<Rightarrow> int \<Rightarrow> int \<Rightarrow> py_error + datetime" where
  "py_datetime y m d =
     (if 1 \<le> y \<and> y \<le> 9999 \<and> 1 \<le> m \<and> m \<le> 12
         \<and> 1 \<le> d \<and> d \<le> int (days_in_month (nat y) (nat m))
      then Inr \<lparr>dt_year = nat y, dt_month = nat m, dt_day = nat d, dt_hour = 0,
                dt_minute = 0, dt_second = 0, dt_microsecond = 0\<rparr>
      else Inl ValueError)"

fun dec_digits :: "nat \<Rightarrow> nat list" where
  "dec_digits n = (if n < 10 then [n] else dec_digits (n div 10) @ [n mod 10])"

declare dec_digits.simps [simp del]

text \<open>A number in decimal, padded with zeros on the left to at least \<open>k\<close> characters.\<close>

definition zpad :: "nat \<Rightarrow> nat \<Rightarrow> pystr" where
  "zpad k n = (let ds = dec_digits n in replicate (k - length ds) 48 @ map (\<lambda>d. 48 + d) ds)"

text \<open>\<open>isoformat()\<close>: \<open>YYYY-MM-DDTHH:MM:SS\<close>, followed by \<open>.ffffff\<close> when the microsecond is not 0.\<close>

definition isoformat :: "datetime \<Rightarrow> pystr" where
  "isoformat d =
     zpad 4 (dt_year d) @ str ''-'' @ zpad 2 (dt_month d) @ str ''-'' @ zpad 2 (dt_day d)
     @ str ''T'' @ zpad 2 (dt_hour d) @ str '':'' @ zpad 2 (dt_minute d) @ str '':''
     @ zpad 2 (dt_second d)
     @ (if dt_microsecond d = 0 then [] else str ''.'' @ zpad 6 (dt_microsecond d))"

text \<open>\<open>strftime('%Y%m%d_%H%M%S_%f')\<close>\<close>

definition strftime_lmn :: "datetime \<Rightarrow> pystr" where
  "strftime_lmn d =
     zpad 4 (dt_year d) @ zpad 2 (dt_month d) @ zpad 2 (dt_day d) @ str ''_''
     @ zpad 2 (dt_hour d) @ zpad 2 (dt_minute d) @ zpad 2 (dt_second d) @ str ''_''
     @ zpad 6 (dt_microsecond d)"

section \<open>The storage table\<close>

text \<open>
  The table behind \<open>self.table\<close>: its items in scan order, and the two inputs the program
  takes from its environment. \<open>fault\<close> tells, for the i-th call to the storage service,
  whether the call raises (with which message); \<open>clock\<close> is the i-th reading of
  \<open>datetime.now()\<close>. A scan is taken to return the whole table in one page.
\<close>

record 'n world =
  rows :: "'n item list"
  fault :: "nat \<Rightarrow> string option"
  calls :: nat
  clock :: "nat \<Rightarrow> datetime"
  ticks :: nat

definition now :: "'n world \<Rightarrow> datetime \<times> 'n world" where
  "now w = (clock w (ticks w), w\<lparr>ticks := Suc (ticks w)\<rparr>)"

definition get_current_timestamp :: "'n world \<Rightarrow> pystr \<times> 'n world" where
  "get_current_timestamp w = (case now w of (d, w') \<Rightarrow> (isoformat d, w'))"

definition storage_call :: "'n world \<Rightarrow> string option \<times> 'n world" where
  "storage_call w = (fault w (calls w), w\<lparr>calls := Suc (calls w)\<rparr>)"

text \<open>\<open>put_item(Item=item)\<close>: the item replaces the one with the same key, or is added.\<close>

definition put_item :: "string \<Rightarrow> 'n world \<Rightarrow> 'n item \<Rightarrow> (py_error + unit) \<times> 'n world" where
  "put_item kn w item =
     (case storage_call w of
        (Some m, w1) \<Rightarrow> (Inl (ClientError m), w1)
      | (None, w1) \<Rightarrow>
          (case item kn of
             Some (PStr k) \<Rightarrow>
               (if \<exists>r \<in> set (rows w1). r kn = Some (PStr k)
                then (Inr (), w1\<lparr>rows := map (\<lambda>r. if r kn = Some (PStr k) then item else r) (rows w1)\<rparr>)
                else (Inr (), w1\<lparr>rows := rows w1 @ [item]\<rparr>))
           | _ \<Rightarrow> (Inl (ClientError ''ValidationException''), w1)))"

text \<open>\<open>get_item(Key={kn: k})\<close>: the response holds \<open>'Item'\<close> when the key is present.\<close>

definition get_item :: "string \<Rightarrow> 'n world \<Rightarrow> pystr \<Rightarrow> (py_error + 'n item option) \<times> 'n world" where
  "get_item kn w k =
     (case storage_call w of
        (Some m, w1) \<Rightarrow> (Inl (ClientError m), w1)
      | (None, w1) \<Rightarrow> (Inr (find (\<lambda>r. r kn = Some (PStr k)) (rows w1)), w1))"

text \<open>
  \<open>update_item(Key={kn: k}, UpdateExpression="SET a = :a, ...", ExpressionAttributeValues,
  ReturnValues="ALL_NEW")\<close>: \<open>set_clause\<close> lists the attributes assigned, each from the
  value bound to its own name. The service rejects a clause that assigns an attribute twice,
  assigns the key, or uses an unbound value; otherwise it assigns the attributes in the item
  of that key, creating the item when there is none, and returns the new item.
\<close>

definition has_key :: "string \<Rightarrow> pystr \<Rightarrow> 'n item \<Rightarrow> bool" where
  "has_key kn k r = (r kn = Some (PStr k))"

definition assign_attrs :: "string list \<Rightarrow> 'n item \<Rightarrow> 'n item \<Rightarrow> 'n item" where
  "assign_attrs set_clause vals r = (\<lambda>a. if a \<in> set set_clause then vals a else r a)"

definition update_item ::
  "string \<Rightarrow> 'n world \<Rightarrow> pystr \<Rightarrow> string list \<Rightarrow> 'n item \<Rightarrow> (py_error + 'n item) \<times> 'n world" where
  "update_item kn w k set_clause vals =
     (case storage_call w of
        (Some m, w1) \<Rightarrow> (Inl (ClientError m), w1)
      | (None, w1) \<Rightarrow>
          if \<not> distinct set_clause \<or> kn \<in> set set_clause \<or> (\<exists>a \<in> set set_clause. vals a = None)
          then (Inl (ClientError ''ValidationException''), w1)
          else
            (case find (has_key kn k) (rows w1) of
               Some r \<Rightarrow>
                 (Inr (assign_attrs set_clause vals r),
                  w1\<lparr>rows := map (\<lambda>r. if has_key kn k r then assign_attrs set_clause vals r
                                         else r) (rows w1)\<rparr>)
             | None \<Rightarrow>
                 (Inr (assign_attrs set_clause vals [kn \<mapsto> PStr k]),
                  w1\<lparr>rows := rows w1 @ [assign_attrs set_clause vals [kn \<mapsto> PStr k]]\<rparr>)))"

definition delete_item :: "string \<Rightarrow> 'n world \<Rightarrow> pystr \<Rightarrow> (py_error + unit) \<times> 'n world" where
  "delete_item kn w k =
     (case storage_call w of
        (Some m, w1) \<Rightarrow> (Inl (ClientError m), w1)
      | (None, w1) \<Rightarrow> (Inr (), w1\<lparr>rows := filter (\<lambda>r. r kn \<noteq> Some (PStr k)) (rows w1)\<rparr>))"

text \<open>\<open>scan(FilterExpression=...)\<close>: the items that satisfy the filter.\<close>

definition scan :: "'n world \<Rightarrow> ('n item \<Rightarrow> bool) \<Rightarrow> (py_error + 'n item list) \<times> 'n world" where
  "scan w flt =
     (case storage_call w of
        (Some m, w1) \<Rightarrow> (Inl (ClientError m), w1)
      | (None, w1) \<Rightarrow> (Inr (filter flt (rows w1)), w1))"

text \<open>The filter expressions of the source.\<close>

definition attribute_not_exists :: "string \<Rightarrow> 'n item \<Rightarrow> bool" where
  "attribute_not_exists a r = (r a = None)"

text \<open>\<open>a = :v\<close> with a string operand.\<close>

definition attribute_eq :: "string \<Rightarrow> pystr \<Rightarrow> 'n item \<Rightarrow> bool" where
  "attribute_eq a v r = (r a = Some (PStr v))"

text \<open>
  \<open>a BETWEEN :lo AND :hi\<close> with string operands: true when the attribute is a string
  that is greater than or equal to \<open>lo\<close> and less than or equal to \<open>hi\<close>.
\<close>

definition attribute_between :: "string \<Rightarrow> pystr \<Rightarrow> pystr \<Rightarrow> 'n item \<Rightarrow> bool" where
  "attribute_between a lo hi r = (case r a of Some (PStr s) \<Rightarrow> lo \<le> s \<and> s \<le> hi | _ \<Rightarrow> False)"

section \<open>Record Store: \<open>DynamoDBModel\<close>\<close>

record 'n model =
  pk :: pystr
  transaction_type :: "pystr option"
  category :: "pystr option"
  description :: "pystr option"
  amount :: "'n option"

text \<open>The item that \<open>create\<close> builds: the fields of the record, without the ones that are \<open>None\<close>.\<close>

definition create_item :: "'n model \<Rightarrow> pystr \<Rightarrow> 'n item" where
  "create_item self current_time =
     drop_none
       [''pk'' \<mapsto> PStr (pk self),
        ''created_at'' \<mapsto> PStr current_time,
        ''updated_at'' \<mapsto> PStr current_time,
        ''deleted_at'' \<mapsto> PNone,
        ''transaction_type'' \<mapsto> opt_str (transaction_type self),
        ''category'' \<mapsto> opt_str (category self),
        ''description'' \<mapsto> opt_str (description self),
        ''amount'' \<mapsto> opt_num (amount self)]"

definition create :: "'n world \<Rightarrow> 'n model \<Rightarrow> 'n item result \<times> 'n world" where
  "create w self =
     (case get_current_timestamp w of
        (current_time, w1) \<Rightarrow>
          (case put_item ''pk'' w1 (create_item self current_time) of
             (Inl e, w2) \<Rightarrow> (Failure (str_of_error e), w2)
           | (Inr _, w2) \<Rightarrow> (Success (create_item self current_time), w2)))"

definition read :: "'n world \<Rightarrow> pystr \<Rightarrow> 'n item result \<times> 'n world" where
  "read w k =
     (case get_item ''pk'' w k of
        (Inl e, w1) \<Rightarrow> (Failure (str_of_error e), w1)
      | (Inr (Some item), w1) \<Rightarrow> (Success item, w1)
      | (Inr None, w1) \<Rightarrow> (Failure ''Item not found'', w1))"

text \<open>
  The loop of \<open>update\<close> over \<open>kwargs.items()\<close>: it extends the \<open>SET\<close> clause and binds the
  value, for every key other than the primary key whose value is not \<open>None\<close>.
\<close>

fun update_fields ::
  "string \<Rightarrow> 'n pydict \<Rightarrow> string list \<times> 'n item \<Rightarrow> string list \<times> 'n item" where
  "update_fields kn [] acc = acc"
| "update_fields kn ((key, val) # kwargs) (update_expression, expression_attribute_values) =
     (if key \<noteq> kn \<and> val \<noteq> PNone
      then update_fields kn kwargs
             (update_expression @ [key], expression_attribute_values(key \<mapsto> val))
      else update_fields kn kwargs (update_expression, expression_attribute_values))"

text \<open>
  \<open>def update(self, pk, **kwargs)\<close>: the parameter \<open>pk\<close> takes the key of the call, so a
  call that passes \<open>pk\<close> again among the keyword fields is rejected by the interpreter
  (\<open>TypeError\<close>: multiple values for the argument) before the body and its \<open>try\<close> are
  entered. \<open>kwargs\<close> are the keyword fields of the call, in the order written.
\<close>

definition update ::
  "'n world \<Rightarrow> pystr \<Rightarrow> 'n pydict \<Rightarrow> (py_error + 'n item result) \<times> 'n world" where
  "update w k kwargs =
     (if ''pk'' \<in> set (map fst kwargs) then (Inl TypeError, w)
      else
        (case get_current_timestamp w of
           (ts, w1) \<Rightarrow>
             (case update_fields ''pk'' kwargs ([''updated_at''], [''updated_at'' \<mapsto> PStr ts]) of
                (update_expression, expression_attribute_values) \<Rightarrow>
                  (case update_item ''pk'' w1 k update_expression expression_attribute_values of
                     (Inl e, w2) \<Rightarrow> (Inr (Failure (str_of_error e)), w2)
                   | (Inr attrs, w2) \<Rightarrow> (Inr (Success attrs), w2)))))"

definition delete :: "'n world \<Rightarrow> pystr \<Rightarrow> bool \<Rightarrow> 'n item result \<times> 'n world" where
  "delete w k soft_delete =
     (if soft_delete
      then (case get_current_timestamp w of
              (ts, w1) \<Rightarrow>
                (case update_item ''pk'' w1 k [''deleted_at''] [''deleted_at'' \<mapsto> PStr ts] of
                   (Inl e, w2) \<Rightarrow> (Failure (str_of_error e), w2)
                 | (Inr attrs, w2) \<Rightarrow> (Success attrs, w2)))
      else (case delete_item ''pk'' w k of
              (Inl e, w1) \<Rightarrow> (Failure (str_of_error e), w1)
            | (Inr _, w1) \<Rightarrow> (Success [''pk'' \<mapsto> PStr k], w1)))"

text \<open>
  \<open>list_all\<close> of the source (named \<open>list_all_records\<close>, as \<open>list_all\<close> is a constant of
  the list library). The success payload of a listing is \<open>'data'\<close> and \<open>'count'\<close>.
\<close>

definition list_all_records :: "'n world \<Rightarrow> bool \<Rightarrow> ('n item list \<times> nat) result \<times> 'n world" where
  "list_all_records w include_deleted =
     (case (if include_deleted then scan w (\<lambda>r. True)
            else scan w (attribute_not_exists ''deleted_at'')) of
        (Inl e, w1) \<Rightarrow> (Failure (str_of_error e), w1)
      | (Inr items, w1) \<Rightarrow> (Success (items, length items), w1))"

definition query_by_transaction_type ::
  "'n world \<Rightarrow> pystr \<Rightarrow> ('n item list \<times> nat) result \<times> 'n world" where
  "query_by_transaction_type w t =
     (case scan w (\<lambda>r. attribute_eq ''transaction_type'' t r
                        \<and> attribute_not_exists ''deleted_at'' r) of
        (Inl e, w1) \<Rightarrow> (Failure (str_of_error e), w1)
      | (Inr items, w1) \<Rightarrow> (Success (items, length items), w1))"

definition query_by_category ::
  "'n world \<Rightarrow> pystr \<Rightarrow> ('n item list \<times> nat) result \<times> 'n world" where
  "query_by_category w c =
     (case scan w (\<lambda>r. attribute_eq ''category'' c r
                        \<and> attribute_not_exists ''deleted_at'' r) of
        (Inl e, w1) \<Rightarrow> (Failure (str_of_error e), w1)
      | (Inr items, w1) \<Rightarrow> (Success (items, length items), w1))"

section \<open>The Python runtime\<close>

text \<open>
  What the program takes from the language runtime: the character class \<open>\d\<close> of the regular
  expression engine (the Unicode decimal digits), \<open>float\<close> on a string (it may raise) and on
  a number, and the text of a value that is not a string inside an f-string.
\<close>

record 'n runtime =
  isdigit :: "nat \<Rightarrow> bool"
  float_of_str :: "pystr \<Rightarrow> py_error + 'n"
  float_of_num :: "'n \<Rightarrow> 'n"
  format_value :: "'n pyval \<Rightarrow> pystr"

text \<open>\<open>float(v)\<close>\<close>

fun py_float :: "'n runtime \<Rightarrow> ('n::{zero,one}) pyval \<Rightarrow> py_error + 'n" where
  "py_float rt (PNum a) = Inr (float_of_num rt a)"
| "py_float rt (PBool b) = Inr (float_of_num rt (if b then 1 else 0))"
| "py_float rt (PStr s) = float_of_str rt s"
| "py_float rt PNone = Inl TypeError"
| "py_float rt (PList xs) = Inl TypeError"
| "py_float rt (PDict kv) = Inl TypeError"

text \<open>\<open>acc + v\<close> for a number \<open>acc\<close>\<close>

fun py_add :: "'n \<Rightarrow> ('n::{zero,one,plus}) pyval \<Rightarrow> py_error + 'n" where
  "py_add acc (PNum a) = Inr (acc + a)"
| "py_add acc (PBool b) = Inr (acc + (if b then 1 else 0))"
| "py_add acc PNone = Inl TypeError"
| "py_add acc (PStr s) = Inl TypeError"
| "py_add acc (PList xs) = Inl TypeError"
| "py_add acc (PDict kv) = Inl TypeError"

section \<open>Financial Record Model: \<open>Money\<close>\<close>

definition income_tag :: pystr where
  "income_tag = [21454, 20837]"

definition expense_tag :: pystr where
  "expense_tag = [25903, 20986]"

definition get_income_records :: "'n world \<Rightarrow> ('n item list \<times> nat) result \<times> 'n world" where
  "get_income_records w = query_by_transaction_type w income_tag"

definition get_expense_records :: "'n world \<Rightarrow> ('n item list \<times> nat) result \<times> 'n world" where
  "get_expense_records w = query_by_transaction_type w expense_tag"

definition get_records_by_category ::
  "'n world \<Rightarrow> pystr \<Rightarrow> ('n item list \<times> nat) result \<times> 'n world" where
  "get_records_by_category w c = query_by_category w c"

record 'n total_result =
  total_amount :: 'n
  record_count :: nat
  transaction_type_filter :: "pystr option"

text \<open>The loop of \<open>get_total_amount\<close>: \<open>float\<close> is outside any \<open>try\<close>.\<close>

fun sum_amounts ::
  "'n runtime \<Rightarrow> ('n::{zero,one,plus}) item list \<Rightarrow> 'n \<Rightarrow> py_error + 'n" where
  "sum_amounts rt [] acc = Inr acc"
| "sum_amounts rt (item # items) acc =
     (case item ''amount'' of
        None \<Rightarrow> sum_amounts rt items acc
      | Some PNone \<Rightarrow> sum_amounts rt items acc
      | Some v \<Rightarrow>
          (case py_float rt v of
             Inl e \<Rightarrow> Inl e
           | Inr x \<Rightarrow> sum_amounts rt items (acc + x)))"

definition get_total_amount ::
  "'n runtime \<Rightarrow> ('n::{zero,one,plus}) world \<Rightarrow> pystr option
     \<Rightarrow> (py_error + 'n total_result result) \<times> 'n world" where
  "get_total_amount rt w transaction_type_arg =
     (case (case transaction_type_arg of
              Some t \<Rightarrow> if t \<noteq> [] then query_by_transaction_type w t else list_all_records w False
            | None \<Rightarrow> list_all_records w False) of
        (Failure e, w1) \<Rightarrow> (Inr (Failure e), w1)
      | (Success (data, n), w1) \<Rightarrow>
          (case sum_amounts rt data 0 of
             Inl e \<Rightarrow> (Inl e, w1)
           | Inr t \<Rightarrow>
               (Inr (Success \<lparr>total_amount = t, record_count = length data,
                               transaction_type_filter = transaction_type_arg\<rparr>), w1)))"

record 'n summary =
  year :: int
  month :: int
  income_total :: 'n
  expense_total :: 'n
  net_amount :: 'n
  income_count :: nat
  expense_count :: nat
  total_records :: nat

text \<open>
  The loop of \<open>get_monthly_summary\<close> over the scanned records, on the four accumulators
  \<open>(it, et, ic, ec)\<close> for \<open>income_total\<close>, \<open>expense_total\<close>, \<open>income_count\<close> and
  \<open>expense_count\<close>.
\<close>

fun tally ::
  "('n::{zero,one,plus}) item list \<Rightarrow> 'n \<times> 'n \<times> nat \<times> nat \<Rightarrow> py_error + ('n \<times> 'n \<times> nat \<times> nat)" where
  "tally [] acc = Inr acc"
| "tally (r # records) (it, et, ic, ec) =
     (let amt = (case r ''amount'' of
                   None \<Rightarrow> PNum 0
                 | Some v \<Rightarrow> if truthy v then v else PNum 0);
          tt = (case r ''transaction_type'' of
                  None \<Rightarrow> PStr []
                | Some v \<Rightarrow> v)
      in if tt = PStr income_tag
         then (case py_add it amt of
                 Inl e \<Rightarrow> Inl e
               | Inr t \<Rightarrow> tally records (t, et, Suc ic, ec))
         else if tt = PStr expense_tag
         then (case py_add et amt of
                 Inl e \<Rightarrow> Inl e
               | Inr t \<Rightarrow> tally records (it, t, ic, Suc ec))
         else tally records (it, et, ic, ec))"

text \<open>The scan filter of the monthly summary.\<close>

definition monthly_filter :: "pystr \<Rightarrow> pystr \<Rightarrow> 'n item \<Rightarrow> bool" where
  "monthly_filter start_date end_date r =
     (attribute_between ''created_at'' start_date end_date r
      \<and> attribute_not_exists ''deleted_at'' r)"

text \<open>The two dates are computed before the \<open>try\<close> block is entered.\<close>

definition get_monthly_summary ::
  "('n::{zero,one,plus,minus}) world \<Rightarrow> int \<Rightarrow> int \<Rightarrow> (py_error + 'n summary result) \<times> 'n world" where
  "get_monthly_summary w y m =
     (case py_datetime y m 1 of
        Inl e \<Rightarrow> (Inl e, w)
      | Inr sd \<Rightarrow>
          (case (if m = 12 then py_datetime (y + 1) 1 1 else py_datetime y (m + 1) 1) of
             Inl e \<Rightarrow> (Inl e, w)
           | Inr ed \<Rightarrow>
               (case scan w (monthly_filter (isoformat sd) (isoformat ed)) of
                  (Inl e, w1) \<Rightarrow> (Inr (Failure (str_of_error e)), w1)
                | (Inr records, w1) \<Rightarrow>
                    (case tally records (0, 0, 0, 0) of
                       Inl e \<Rightarrow> (Inr (Failure (str_of_error e)), w1)
                     | Inr (it, et, ic, ec) \<Rightarrow>
                         (Inr (Success \<lparr>year = y, month = m, income_total = it,
                                         expense_total = et, net_amount = it - et,
                                         income_count = ic, expense_count = ec,
                                         total_records = length records\<rparr>), w1)))))"

section \<open>Message Parser: \<open>_parse_message\<close>\<close>

text \<open>
  \<open>re.search(r'(\d+(?:,\d{3})*(?:\.\d+)?)', message_text)\<close>. The comma is the code point 44
  and the full stop 46. After \<open>\d+\<close> every part of the pattern is optional and greedy, and
  nothing follows it, so the engine finds the match at a position without backtracking: all
  the digits there, then every group of a comma and three digits, then a full stop with all
  the digits after it when there is at least one. The search tries the positions from the
  left.
\<close>

fun take_groups :: "(nat \<Rightarrow> bool) \<Rightarrow> pystr \<Rightarrow> pystr \<times> pystr" where
  "take_groups dg (c # x # y # z # s) =
     (if c = 44 \<and> dg x \<and> dg y \<and> dg z
      then (case take_groups dg s of (g, r) \<Rightarrow> (c # x # y # z # g, r))
      else ([], c # x # y # z # s))"
| "take_groups dg s = ([], s)"

definition take_fraction :: "(nat \<Rightarrow> bool) \<Rightarrow> pystr \<Rightarrow> pystr \<times> pystr" where
  "take_fraction dg s =
     (case s of
        [] \<Rightarrow> ([], [])
      | c # t \<Rightarrow> if c = 46 \<and> takeWhile dg t \<noteq> []
                 then (c # takeWhile dg t, dropWhile dg t)
                 else ([], s))"

definition match_here :: "(nat \<Rightarrow> bool) \<Rightarrow> pystr \<Rightarrow> pystr option" where
  "match_here dg s =
     (if takeWhile dg s = [] then None
      else (case take_groups dg (dropWhile dg s) of
              (g, r) \<Rightarrow> Some (takeWhile dg s @ g @ fst (take_fraction dg r))))"

fun re_search :: "(nat \<Rightarrow> bool) \<Rightarrow> pystr \<Rightarrow> pystr option" where
  "re_search dg [] = None"
| "re_search dg (c # s) =
     (case match_here dg (c # s) of
        Some m \<Rightarrow> Some m
      | None \<Rightarrow> re_search dg s)"

text \<open>\<open>any(keyword in message_text for keyword in keywords)\<close>\<close>

definition contains_any :: "pystr \<Rightarrow> pystr list \<Rightarrow> bool" where
  "contains_any message_text keywords = list_ex (\<lambda>keyword. sublist keyword message_text) keywords"

text \<open>The keywords and the category names of the source, as code points.\<close>

definition kw_salary :: pystr where "kw_salary = [32102, 19982]"
definition kw_bonus :: pystr where "kw_bonus = [12508, 12540, 12490, 12473]"
definition kw_award :: pystr where "kw_award = [36062, 19982]"

definition income_keywords :: "pystr list" where
  "income_keywords =
     [kw_salary, kw_bonus, kw_award, [21454, 20837], [20837, 37329], [22770, 19978]]"

definition food_keywords :: "pystr list" where
  "food_keywords =
     [[39135, 36027], [39135, 20107], [26172, 39135], [22805, 39135], [26397, 39135],
      [24321, 24403], [12524, 12473, 12488, 12521, 12531]]"

definition transport_keywords :: "pystr list" where
  "transport_keywords =
     [[20132, 36890, 36027], [38651, 36554], [12496, 12473], [12479, 12463, 12471, 12540],
      [12460, 12477, 12522, 12531]]"

definition housing_keywords :: "pystr list" where
  "housing_keywords = [[23478, 36035], [20303, 23621, 36027], [36035, 36024]]"

definition utilities_keywords :: "pystr list" where
  "utilities_keywords =
     [[20809, 29105, 36027], [38651, 27671], [12460, 12473], [27700, 36947]]"

definition medical_keywords :: "pystr list" where
  "medical_keywords = [[21307, 30274, 36027], [30149, 38498], [34220]]"

definition entertainment_keywords :: "pystr list" where
  "entertainment_keywords = [[23087, 27005], [26144, 30011], [12466, 12540, 12512], [26412]]"

definition shopping_keywords :: "pystr list" where
  "shopping_keywords =
     [[36023, 12356, 29289], [12471, 12519, 12483, 12500, 12531, 12464], [26381],
      [38609, 36008]]"

definition cat_salary :: pystr where "cat_salary = [32102, 19982]"
definition cat_income :: pystr where "cat_income = [21454, 20837]"
definition cat_food :: pystr where "cat_food = [39135, 36027]"
definition cat_transport :: pystr where "cat_transport = [20132, 36890, 36027]"
definition cat_housing :: pystr where "cat_housing = [20303, 23621, 36027]"
definition cat_utilities :: pystr where "cat_utilities = [20809, 29105, 36027]"
definition cat_medical :: pystr where "cat_medical = [21307, 30274, 36027]"
definition cat_entertainment :: pystr where "cat_entertainment = [23087, 27005, 36027]"
definition cat_shopping :: pystr where "cat_shopping = [36023, 12356, 29289]"
definition cat_other :: pystr where "cat_other = [12381, 12398, 20182]"

text \<open>The amount: \<open>None\<close> without a match, else \<open>float\<close> of the match without its commas.\<close>

definition parse_amount :: "'n runtime \<Rightarrow> pystr \<Rightarrow> py_error + 'n pyval" where
  "parse_amount rt message_text =
     (case re_search (isdigit rt) message_text of
        None \<Rightarrow> Inr PNone
      | Some amount_match \<Rightarrow>
          (case float_of_str rt (filter (\<lambda>c. c \<noteq> 44) amount_match) of
             Inl e \<Rightarrow> Inl e
           | Inr x \<Rightarrow> Inr (PNum x)))"

text \<open>The transaction type and the category, by the keywords.\<close>

definition classify :: "pystr \<Rightarrow> pystr \<times> pystr" where
  "classify message_text =
     (if contains_any message_text income_keywords
      then (income_tag,
            if sublist kw_salary message_text \<or> sublist kw_bonus message_text
               \<or> sublist kw_award message_text
            then cat_salary else cat_income)
      else (expense_tag,
            if contains_any message_text food_keywords then cat_food
            else if contains_any message_text transport_keywords then cat_transport
            else if contains_any message_text housing_keywords then cat_housing
            else if contains_any message_text utilities_keywords then cat_utilities
            else if contains_any message_text medical_keywords then cat_medical
            else if contains_any message_text entertainment_keywords then cat_entertainment
            else if contains_any message_text shopping_keywords then cat_shopping
            else cat_other))"

text \<open>
  The body of the \<open>try\<close> block. \<open>re.search\<close> raises \<open>TypeError\<close> when the message is not
  a string.
\<close>

definition parse_body :: "'n runtime \<Rightarrow> 'n pyval \<Rightarrow> py_error + 'n pydict" where
  "parse_body rt message_text =
     (case message_text of
        PStr s \<Rightarrow>
          (case parse_amount rt s of
             Inl e \<Rightarrow> Inl e
           | Inr amt \<Rightarrow>
               (case classify s of
                  (tt, cat) \<Rightarrow>
                    Inr [(''transaction_type'', PStr tt), (''category'', PStr cat),
                         (''description'', message_text), (''amount'', amt)]))
      | _ \<Rightarrow> Inl TypeError)"

text \<open>The result of the \<open>except\<close> branch.\<close>

definition default_parsed :: "'n pyval \<Rightarrow> 'n pydict" where
  "default_parsed message_text =
     [(''transaction_type'', PStr expense_tag), (''category'', PStr cat_other),
      (''description'', message_text), (''amount'', PNone)]"

text \<open>\<open>_parse_message\<close>: \<open>Inl\<close> would be an exception that leaves the function.\<close>

definition parse_message :: "'n runtime \<Rightarrow> 'n pyval \<Rightarrow> py_error + 'n pydict" where
  "parse_message rt message_text =
     (case parse_body rt message_text of
        Inr parsed \<Rightarrow> Inr parsed
      | Inl e \<Rightarrow> Inr (default_parsed message_text))"

section \<open>\<open>SendLineService\<close>\<close>

text \<open>\<open>d[k] = v\<close> and \<open>d.update(e)\<close> on dictionaries, \<open>dict(d)\<close> as the attribute map of an item.\<close>

fun dict_set :: "'n pydict \<Rightarrow> string \<Rightarrow> 'n pyval \<Rightarrow> 'n pydict" where
  "dict_set [] k v = [(k, v)]"
| "dict_set ((k', v') # d) k v = (if k' = k then (k, v) # d else (k', v') # dict_set d k v)"

definition dict_update :: "'n pydict \<Rightarrow> 'n pydict \<Rightarrow> 'n pydict" where
  "dict_update d e = fold (\<lambda>(k, v) d'. dict_set d' k v) e d"

text \<open>
  \<open>write_line_transaction\<close>, with its keyword parameters as values (\<open>None\<close> when not given)
  and \<open>additional_data\<close> as a dictionary (empty when not given or \<open>None\<close>). The result
  leaves out the constant \<open>'message'\<close> and the raw \<open>'response'\<close>.
\<close>

definition line_item ::
  "pystr \<Rightarrow> pystr \<Rightarrow> 'n pyval \<Rightarrow> 'n pyval \<Rightarrow> 'n pyval \<Rightarrow> 'n pyval \<Rightarrow> 'n pyval \<Rightarrow> 'n pyval
     \<Rightarrow> 'n pydict \<Rightarrow> 'n item" where
  "line_item lmn current_time tt cat descr amt line_user_id line_message additional_data =
     drop_none (map_of (dict_update
       [(''lmn'', PStr lmn),
        (''created_at'', PStr current_time),
        (''updated_at'', PStr current_time),
        (''deleted_at'', PNone),
        (''transaction_type'', tt),
        (''category'', cat),
        (''description'', descr),
        (''amount'', amt),
        (''line_user_id'', line_user_id),
        (''line_message'', line_message)] additional_data))"

definition write_line_transaction ::
  "'n world \<Rightarrow> pystr \<Rightarrow> 'n pyval \<Rightarrow> 'n pyval \<Rightarrow> 'n pyval \<Rightarrow> 'n pyval \<Rightarrow> 'n pyval \<Rightarrow> 'n pyval
     \<Rightarrow> 'n pydict \<Rightarrow> 'n item result \<times> 'n world" where
  "write_line_transaction w lmn tt cat descr amt line_user_id line_message additional_data =
     (case get_current_timestamp w of
        (current_time, w1) \<Rightarrow>
          (case put_item ''lmn'' w1
                  (line_item lmn current_time tt cat descr amt line_user_id line_message
                     additional_data) of
             (Inl e, w2) \<Rightarrow> (Failure (str_of_error e), w2)
           | (Inr _, w2) \<Rightarrow>
               (Success (line_item lmn current_time tt cat descr amt line_user_id line_message
                           additional_data), w2)))"

text \<open>The text of a value inside the f-string of the key.\<close>

definition format_in_fstring :: "'n runtime \<Rightarrow> 'n pyval \<Rightarrow> pystr" where
  "format_in_fstring rt v = (case v of PStr s \<Rightarrow> s | _ \<Rightarrow> format_value rt v)"

text \<open>
  \<open>write_from_line_message\<close>: \<open>parsed_data\<close> is \<open>None\<close> or a dictionary. The call
  \<open>write_line_transaction(lmn=lmn, **write_data)\<close> raises \<open>TypeError\<close> when a key of
  \<open>write_data\<close> is no parameter of it or is \<open>lmn\<close> again. An \<open>additional_data\<close> among the
  keys is a dictionary or a false value; any other value is taken to raise in \<open>item.update\<close>
  (a list of pairs, which \<open>update\<close> would accept, is not modelled).
\<close>

definition write_from_line_message ::
  "'n runtime \<Rightarrow> ('n::zero) world \<Rightarrow> 'n pyval \<Rightarrow> 'n pyval \<Rightarrow> 'n pydict option
     \<Rightarrow> (py_error + 'n item result) \<times> 'n world" where
  "write_from_line_message rt w line_user_id line_message parsed_data =
     (case now w of
        (current_time, w1) \<Rightarrow>
          let lmn = str ''lmn_'' @ format_in_fstring rt line_user_id @ str ''_''
                    @ strftime_lmn current_time;
              write_data = (case parsed_data of
                              None \<Rightarrow> [(''line_user_id'', line_user_id),
                                        (''line_message'', line_message)]
                            | Some pd \<Rightarrow> dict_update [(''line_user_id'', line_user_id),
                                                     (''line_message'', line_message)] pd);
              arg = (\<lambda>k. case map_of write_data k of None \<Rightarrow> PNone | Some v \<Rightarrow> v)
          in if \<exists>k \<in> set (map fst write_data).
                  k \<notin> {''transaction_type'', ''category'', ''description'', ''amount'',
                        ''line_user_id'', ''line_message'', ''additional_data''}
             then (Inl TypeError, w1)
             else (case arg ''additional_data'' of
                     PNone \<Rightarrow>
                       (case write_line_transaction w1 lmn (arg ''transaction_type'')
                               (arg ''category'') (arg ''description'') (arg ''amount'')
                               (arg ''line_user_id'') (arg ''line_message'') [] of
                          (res, w2) \<Rightarrow> (Inr res, w2))
                   | PDict extra \<Rightarrow>
                       (case write_line_transaction w1 lmn (arg ''transaction_type'')
                               (arg ''category'') (arg ''description'') (arg ''amount'')
                               (arg ''line_user_id'') (arg ''line_message'') extra of
                          (res, w2) \<Rightarrow> (Inr res, w2))
                   | other \<Rightarrow>
                       if truthy other then (Inl TypeError, w1)
                       else (case write_line_transaction w1 lmn (arg ''transaction_type'')
                                    (arg ''category'') (arg ''description'') (arg ''amount'')
                                    (arg ''line_user_id'') (arg ''line_message'') [] of
                               (res, w2) \<Rightarrow> (Inr res, w2))))"

text \<open>\<open>update_line_transaction(self, lmn, **kwargs)\<close>: as \<open>update\<close>, on the key \<open>lmn\<close>.\<close>

definition update_line_transaction ::
  "'n world \<Rightarrow> pystr \<Rightarrow> 'n pydict \<Rightarrow> (py_error + 'n item result) \<times> 'n world" where
  "update_line_transaction w lmn kwargs =
     (if ''lmn'' \<in> set (map fst kwargs) then (Inl TypeError, w)
      else
        (case get_current_timestamp w of
           (ts, w1) \<Rightarrow>
             (case update_fields ''lmn'' kwargs ([''updated_at''], [''updated_at'' \<mapsto> PStr ts]) of
                (update_expression, expression_attribute_values) \<Rightarrow>
                  (case update_item ''lmn'' w1 lmn update_expression expression_attribute_values of
                     (Inl e, w2) \<Rightarrow> (Inr (Failure (str_of_error e)), w2)
                   | (Inr attrs, w2) \<Rightarrow> (Inr (Success attrs), w2)))))"

definition read_line_transaction :: "'n world \<Rightarrow> pystr \<Rightarrow> 'n item result \<times> 'n world" where
  "read_line_transaction w lmn =
     (case get_item ''lmn'' w lmn of
        (Inl e, w1) \<Rightarrow> (Failure (str_of_error e), w1)
      | (Inr (Some item), w1) \<Rightarrow> (Success item, w1)
      | (Inr None, w1) \<Rightarrow> (Failure ''Item not found'', w1))"

section \<open>Ingestion Orchestrator: \<open>_process_line_messages\<close>\<close>

text \<open>\<open>v.get(k, d)\<close>: only a dictionary has \<open>get\<close>.\<close>

fun py_get :: "'n pyval \<Rightarrow> string \<Rightarrow> 'n pyval \<Rightarrow> py_error + 'n pyval" where
  "py_get (PDict kv) k d = Inr (case map_of kv k of None \<Rightarrow> d | Some v \<Rightarrow> v)"
| "py_get PNone k d = Inl AttributeError"
| "py_get (PBool b) k d = Inl AttributeError"
| "py_get (PNum a) k d = Inl AttributeError"
| "py_get (PStr s) k d = Inl AttributeError"
| "py_get (PList xs) k d = Inl AttributeError"

text \<open>\<open>for event in v\<close>: a list gives its elements, a dictionary its keys, a string its characters.\<close>

fun py_iter :: "'n pyval \<Rightarrow> py_error + 'n pyval list" where
  "py_iter (PList xs) = Inr xs"
| "py_iter (PDict kv) = Inr (map (\<lambda>(k, v). PStr (str k)) kv)"
| "py_iter (PStr s) = Inr (map (\<lambda>c. PStr [c]) s)"
| "py_iter PNone = Inl TypeError"
| "py_iter (PBool b) = Inl TypeError"
| "py_iter (PNum a) = Inl TypeError"

text \<open>
  The head of the loop body: the user and the text of an event, \<open>None\<close> when the loop
  continues with the next event, an error when a \<open>get\<close> raises.
\<close>

definition event_fields :: "('n::zero) pyval \<Rightarrow> py_error + ('n pyval \<times> 'n pyval) option" where
  "event_fields event =
     (case py_get event ''type'' PNone of
        Inl e \<Rightarrow> Inl e
      | Inr ty \<Rightarrow>
          if ty \<noteq> PStr (str ''message'') then Inr None
          else
            (case py_get event ''message'' (PDict []) of
               Inl e \<Rightarrow> Inl e
             | Inr message \<Rightarrow>
                 (case py_get message ''type'' PNone of
                    Inl e \<Rightarrow> Inl e
                  | Inr mty \<Rightarrow>
                      if mty \<noteq> PStr (str ''text'') then Inr None
                      else
                        (case py_get event ''source'' (PDict []) of
                           Inl e \<Rightarrow> Inl e
                         | Inr source \<Rightarrow>
                             (case py_get source ''userId'' PNone of
                                Inl e \<Rightarrow> Inl e
                              | Inr user_id \<Rightarrow>
                                  (case py_get message ''text'' (PStr []) of
                                     Inl e \<Rightarrow> Inl e
                                   | Inr message_text \<Rightarrow>
                                       if \<not> truthy user_id \<or> \<not> truthy message_text
                                       then Inr None
                                       else Inr (Some (user_id, message_text))))))))"

text \<open>The loop over the events, with the count of the records written so far.\<close>

fun process_events ::
  "'n runtime \<Rightarrow> ('n::zero) world \<Rightarrow> 'n pyval list \<Rightarrow> nat \<Rightarrow> (py_error + nat) \<times> 'n world" where
  "process_events rt w [] processed_count = (Inr processed_count, w)"
| "process_events rt w (event # events) processed_count =
     (case event_fields event of
        Inl e \<Rightarrow> (Inl e, w)
      | Inr None \<Rightarrow> process_events rt w events processed_count
      | Inr (Some (user_id, message_text)) \<Rightarrow>
          (case parse_message rt message_text of
             Inl e \<Rightarrow> (Inl e, w)
           | Inr parsed_data \<Rightarrow>
               (case write_from_line_message rt w user_id message_text (Some parsed_data) of
                  (Inl e, w1) \<Rightarrow> (Inl e, w1)
                | (Inr (Success item), w1) \<Rightarrow> process_events rt w1 events (Suc processed_count)
                | (Inr (Failure msg), w1) \<Rightarrow> process_events rt w1 events processed_count)))"

text \<open>
  \<open>_process_line_messages\<close>: the whole body is in one \<open>try\<close>; the success payload is
  \<open>'processed_count'\<close>. The construction of the service object makes no call to the
  storage service and is taken to succeed; logging is left out.
\<close>

definition process_line_messages ::
  "'n runtime \<Rightarrow> ('n::zero) world \<Rightarrow> 'n pyval \<Rightarrow> nat result \<times> 'n world" where
  "process_line_messages rt w body =
     (case py_get body ''events'' (PList []) of
        Inl e \<Rightarrow> (Failure (str_of_error e), w)
      | Inr evs \<Rightarrow>
          (case py_iter evs of
             Inl e \<Rightarrow> (Failure (str_of_error e), w)
           | Inr events \<Rightarrow>
               (case process_events rt w events 0 of
                  (Inl e, w1) \<Rightarrow> (Failure (str_of_error e), w1)
                | (Inr processed_count, w1) \<Rightarrow> (Success processed_count, w1))))"

section \<open>Notions used to state the properties\<close>

definition is_income :: "'n item \<Rightarrow> bool" where
  "is_income r = (r ''transaction_type'' = Some (PStr income_tag))"

definition is_expense :: "'n item \<Rightarrow> bool" where
  "is_expense r = (r ''transaction_type'' = Some (PStr expense_tag))"

definition recognised :: "'n item \<Rightarrow> bool" where
  "recognised r = (is_income r \<or> is_expense r)"

text \<open>The records that the scan of \<open>get_monthly_summary\<close> returns for a year and a month.\<close>

definition matched_records :: "'n world \<Rightarrow> int \<Rightarrow> int \<Rightarrow> 'n item list" where
  "matched_records w y m =
     (case (py_datetime y m 1,
            if m = 12 then py_datetime (y + 1) 1 1 else py_datetime y (m + 1) 1) of
        (Inr sd, Inr ed) \<Rightarrow> filter (monthly_filter (isoformat sd) (isoformat ed)) (rows w)
      | _ \<Rightarrow> [])"

text \<open>
  A decimal literal: one digit or more, then possibly a full stop and one digit or more.
\<close>

definition decimal_literal :: "(nat \<Rightarrow> bool) \<Rightarrow> pystr \<Rightarrow> bool" where
  "decimal_literal dg s =
     (takeWhile dg s \<noteq> []
      \<and> (case dropWhile dg s of
            [] \<Rightarrow> True
          | c # fs \<Rightarrow> c = 46 \<and> fs \<noteq> [] \<and> (\<forall>d \<in> set fs. dg d)))"

text \<open>A record carries an amount: the attribute is there and is not \<open>None\<close>.\<close>

definition amount_present :: "'n item \<Rightarrow> bool" where
  "amount_present r = (case r ''amount'' of None \<Rightarrow> False | Some v \<Rightarrow> v \<noteq> PNone)"

definition amount_number :: "'n item \<Rightarrow> 'n option" where
  "amount_number r = (case r ''amount'' of Some (PNum a) \<Rightarrow> Some a | _ \<Rightarrow> None)"

text \<open>
  The fields that the loop of \<open>update\<close> keeps, and the values it binds for them, one after the
  other.
\<close>

definition kept_fields :: "string \<Rightarrow> 'n pydict \<Rightarrow> 'n pydict" where
  "kept_fields kn kwargs = filter (\<lambda>(key, v). key \<noteq> kn \<and> v \<noteq> PNone) kwargs"

definition bind_all :: "'n pydict \<Rightarrow> 'n item \<Rightarrow> 'n item" where
  "bind_all fs vals = fold (\<lambda>(key, v) m. m(key \<mapsto> v)) fs vals"


text \<open>
  The effect of a successful update of the key \<open>k\<close> (key attribute \<open>kn\<close>) that returns
  \<open>item'\<close>: the key is not among the keyword fields; the returned item carries the key, the
  time of the call as \<open>updated_at\<close> and every supplied value that is not \<open>None\<close>; every
  other attribute is as in the item before (the item of that key, or a new item with the
  key alone when there was none); the returned item is stored; and the keys of the table
  are the keys before, with \<open>k\<close> added when it is new.
\<close>

definition update_effect ::
  "string \<Rightarrow> 'n world \<Rightarrow> pystr \<Rightarrow> 'n pydict \<Rightarrow> 'n item \<Rightarrow> 'n world \<Rightarrow> bool" where
  "update_effect kn w k kwargs item' w' =
     (kn \<notin> fst ` set kwargs
      \<and> item' kn = Some (PStr k)
      \<and> item' ''updated_at'' = Some (PStr (isoformat (clock w (ticks w))))
      \<and> (\<forall>(key, v) \<in> set kwargs. v \<noteq> PNone \<longrightarrow> item' key = Some v)
      \<and> (\<exists>r0. (if \<exists>r \<in> set (rows w). has_key kn k r
                 then r0 \<in> set (rows w) \<and> has_key kn k r0
                 else r0 = [kn \<mapsto> PStr k])
               \<and> (\<forall>a. a \<noteq> ''updated_at'' \<and> (\<forall>v. (a, v) \<in> set kwargs \<longrightarrow> v = PNone)
                      \<longrightarrow> item' a = r0 a))
      \<and> item' \<in> set (rows w')
      \<and> map (\<lambda>r. r kn) (rows w')
          = map (\<lambda>r. r kn) (rows w)
            @ (if \<exists>r \<in> set (rows w). has_key kn k r then [] else [Some (PStr k)]))"

text \<open>
  The pattern of the amount, after the words of the specification: digits, then any number
  of groups of a comma and three digits, then possibly a fractional part (a full stop and
  digits).
\<close>

definition is_group :: "(nat \<Rightarrow> bool) \<Rightarrow> pystr \<Rightarrow> bool" where
  "is_group dg g = (\<exists>x y z. g = [44, x, y, z] \<and> dg x \<and> dg y \<and> dg z)"

definition is_fraction :: "(nat \<Rightarrow> bool) \<Rightarrow> pystr \<Rightarrow> bool" where
  "is_fraction dg fr = (\<exists>fs. fr = 46 # fs \<and> fs \<noteq> [] \<and> (\<forall>c \<in> set fs. dg c))"

definition number_pattern :: "(nat \<Rightarrow> bool) \<Rightarrow> pystr \<Rightarrow> bool" where
  "number_pattern dg m =
     (\<exists>ds gs fr. m = ds @ concat gs @ fr \<and> ds \<noteq> [] \<and> (\<forall>c \<in> set ds. dg c)
        \<and> (\<forall>g \<in> set gs. is_group dg g) \<and> (fr = [] \<or> is_fraction dg fr))"

text \<open>
  The first substring of a text that matches the pattern: no match starts before it, and no
  match that starts where it starts is longer.
\<close>

definition first_match :: "(nat \<Rightarrow> bool) \<Rightarrow> pystr \<Rightarrow> pystr \<Rightarrow> bool" where
  "first_match dg text m =
     (\<exists>pre post. text = pre @ m @ post \<and> number_pattern dg m
        \<and> (\<forall>pre' m' post'. text = pre' @ m' @ post' \<and> number_pattern dg m' \<longrightarrow>
              length pre < length pre' \<or> (length pre = length pre' \<and> length m' \<le> length m)))"

text \<open>
  The classification, after the words of the specification: a text mentions a keyword list
  when it contains one of its keywords; the expense groups are tested in their order and the
  first group mentioned gives the category.
\<close>

definition mentions :: "pystr \<Rightarrow> pystr list \<Rightarrow> bool" where
  "mentions msg keywords = (\<exists>k \<in> set keywords. sublist k msg)"

definition expense_groups :: "(pystr list \<times> pystr) list" where
  "expense_groups =
     [(food_keywords, cat_food), (transport_keywords, cat_transport),
      (housing_keywords, cat_housing), (utilities_keywords, cat_utilities),
      (medical_keywords, cat_medical), (entertainment_keywords, cat_entertainment),
      (shopping_keywords, cat_shopping)]"

definition spec_type :: "pystr \<Rightarrow> pystr" where
  "spec_type msg = (if mentions msg income_keywords then income_tag else expense_tag)"

definition spec_category :: "pystr \<Rightarrow> pystr" where
  "spec_category msg =
     (if mentions msg income_keywords
      then (if mentions msg [kw_salary, kw_bonus, kw_award] then cat_salary else cat_income)
      else (case find (\<lambda>(keywords, c). mentions msg keywords) expense_groups of
              Some (keywords, c) \<Rightarrow> c
            | None \<Rightarrow> cat_other))"

text \<open>
  The events of a batch that carry a user and a text, in their order (each of them makes one
  call to the storage service), and the number of the next \<open>n\<close> calls that the service
  accepts.
\<close>

definition eligible :: "('n::zero) pyval list \<Rightarrow> ('n pyval \<times> 'n pyval) list" where
  "eligible events =
     List.map_filter (\<lambda>ev. case event_fields ev of Inr (Some p) \<Rightarrow> Some p | _ \<Rightarrow> None) events"

definition accepted :: "'n world \<Rightarrow> nat \<Rightarrow> nat" where
  "accepted w n = length (filter (\<lambda>i. fault w (calls w + i) = None) [0..<n])"

text \<open>
  The records of a batch. \<open>put_row\<close> is the effect of \<open>put_item\<close> on the items of the
  table: the item replaces the items with its key, or is added at the end. \<open>event_item\<close> is
  the record that the orchestrator hands to the storage service for an event with a user
  and a text: the key is built from the user and the first reading of the clock, the two
  timestamps are the second reading, the four fields are those of the parser, and the fields
  that are \<open>None\<close> are left out. \<open>written_items\<close> are the records of the events whose call
  the service accepts, in the order of the events: the event at position \<open>i\<close> makes the call
  \<open>c + i\<close> and reads the clock at \<open>t + 2 * i\<close> and \<open>t + 2 * i + 1\<close>.
\<close>

definition put_row :: "string \<Rightarrow> 'n item \<Rightarrow> 'n item list \<Rightarrow> 'n item list" where
  "put_row kn item rs =
     (if \<exists>r \<in> set rs. r kn = item kn
      then map (\<lambda>r. if r kn = item kn then item else r) rs
      else rs @ [item])"

definition event_item ::
  "'n runtime \<Rightarrow> datetime \<Rightarrow> datetime \<Rightarrow> 'n pyval \<Rightarrow> 'n pyval \<Rightarrow> 'n item" where
  "event_item rt key_time write_time user_id message_text =
     (let arg = (\<lambda>k. case parse_message rt message_text of
                        Inl e \<Rightarrow> PNone
                      | Inr parsed \<Rightarrow> (case map_of parsed k of None \<Rightarrow> PNone | Some v \<Rightarrow> v))
      in line_item
           (str ''lmn_'' @ format_in_fstring rt user_id @ str ''_'' @ strftime_lmn key_time)
           (isoformat write_time) (arg ''transaction_type'') (arg ''category'')
           (arg ''description'') (arg ''amount'') user_id message_text [])"

fun written_items ::
  "'n runtime \<Rightarrow> (nat \<Rightarrow> string option) \<Rightarrow> (nat \<Rightarrow> datetime) \<Rightarrow> nat \<Rightarrow> nat
     \<Rightarrow> ('n pyval \<times> 'n pyval) list \<Rightarrow> 'n item list" where
  "written_items rt flt clk c t [] = []"
| "written_items rt flt clk c t ((user_id, message_text) # es) =
     (if flt c = None then [event_item rt (clk t) (clk (Suc t)) user_id message_text] else [])
     @ written_items rt flt clk (Suc c) (Suc (Suc t)) es"

section \<open>Example data\<close>

definition feb_first_2024 :: datetime where
  "feb_first_2024 = \<lparr>dt_year = 2024, dt_month = 2, dt_day = 1, dt_hour = 0, dt_minute = 0,
                      dt_second = 0, dt_microsecond = 0\<rparr>"

text \<open>An empty table, no storage fault, and the clock at midnight of 1 February 2024.\<close>

definition midnight_world :: "int world" where
  "midnight_world = \<lparr>rows = [], fault = (\<lambda>i. None), calls = 0,
                      clock = (\<lambda>i. feb_first_2024), ticks = 0\<rparr>"

definition salary_record :: "int model" where
  "salary_record = \<lparr>pk = str ''user123_20240201_001'', transaction_type = Some income_tag,
                     category = None, description = None, amount = Some 300000\<rparr>"

text \<open>Three active records of January 2024: an income, an expense and a transfer.\<close>

definition january_world :: "int world" where
  "january_world =
     \<lparr>rows = [[''pk'' \<mapsto> PStr (str ''a''), ''created_at'' \<mapsto> PStr (str ''2024-01-05T09:30:00.250000''),
               ''transaction_type'' \<mapsto> PStr income_tag, ''amount'' \<mapsto> PNum 100],
              [''pk'' \<mapsto> PStr (str ''b''), ''created_at'' \<mapsto> PStr (str ''2024-01-31T23:59:59.999999''),
               ''transaction_type'' \<mapsto> PStr expense_tag, ''amount'' \<mapsto> PNum 30],
              [''pk'' \<mapsto> PStr (str ''c''), ''created_at'' \<mapsto> PStr (str ''2024-01-01T00:00:00''),
               ''transaction_type'' \<mapsto> PStr (str ''transfer''), ''amount'' \<mapsto> PNum 999]],
       fault = (\<lambda>i. None), calls = 0, clock = (\<lambda>i. feb_first_2024), ticks = 0\<rparr>"

text \<open>
  A runtime for the examples, on the rational numbers: the digits are the ASCII digits, and
  \<open>float\<close> reads a string of digits with at most one fractional part.
\<close>

definition ascii_digit :: "nat \<Rightarrow> bool" where
  "ascii_digit c = (48 \<le> c \<and> c \<le> 57)"

definition digits_value :: "pystr \<Rightarrow> nat" where
  "digits_value ds = foldl (\<lambda>v c. 10 * v + (c - 48)) 0 ds"

definition example_float :: "pystr \<Rightarrow> py_error + rat" where
  "example_float s =
     (if decimal_literal ascii_digit s
      then Inr (of_nat (digits_value (takeWhile ascii_digit s))
                + of_nat (digits_value (drop 1 (dropWhile ascii_digit s)))
                  / 10 ^ length (drop 1 (dropWhile ascii_digit s)))
      else Inl ValueError)"

definition example_runtime :: "rat runtime" where
  "example_runtime = \<lparr>isdigit = ascii_digit, float_of_str = example_float,
                       float_of_num = (\<lambda>x. x), format_value = (\<lambda>v. str ''?'')\<rparr>"

text \<open>Three active records with the amounts 100, none and 50.\<close>

definition amounts_world :: "rat world" where
  "amounts_world =
     \<lparr>rows = [[''pk'' \<mapsto> PStr (str ''a''), ''transaction_type'' \<mapsto> PStr income_tag,
               ''amount'' \<mapsto> PNum 100],
              [''pk'' \<mapsto> PStr (str ''b''), ''transaction_type'' \<mapsto> PStr income_tag],
              [''pk'' \<mapsto> PStr (str ''c''), ''transaction_type'' \<mapsto> PStr expense_tag,
               ''amount'' \<mapsto> PNum 50]],
       fault = (\<lambda>i. None), calls = 0, clock = (\<lambda>i. feb_first_2024), ticks = 0\<rparr>"

text \<open>Two messages: a lunch for 850, and a salary of 1,234,567.5.\<close>

definition lunch_message :: pystr where
  "lunch_message = [26172, 39135, 32, 56, 53, 48, 20870]"

definition grouped_message :: pystr where
  "grouped_message = [32102, 19982, 32, 49, 44, 50, 51, 52, 44, 53, 54, 55, 46, 53, 20870]"

text \<open>A runtime whose \<open>float\<close> raises on every string.\<close>

definition failing_float_runtime :: "rat runtime" where
  "failing_float_runtime = example_runtime\<lparr>float_of_str := (\<lambda>s. Inl ValueError)\<rparr>"

text \<open>
  A batch of three text messages without an amount (a dinner, a rent, a bus); a batch whose
  second event is no dictionary; and a world whose second storage call fails.
\<close>

definition text_event :: "pystr \<Rightarrow> pystr \<Rightarrow> rat pyval" where
  "text_event user_id message_text =
     PDict [(''type'', PStr (str ''message'')),
            (''source'', PDict [(''userId'', PStr user_id)]),
            (''message'', PDict [(''type'', PStr (str ''text'')), (''text'', PStr message_text)])]"

definition dinner_message :: pystr where
  "dinner_message = [22805, 39135]"

definition rent_message :: pystr where
  "rent_message = [23478, 36035]"

definition bus_message :: pystr where
  "bus_message = [12496, 12473]"

definition batch_body :: "rat pyval" where
  "batch_body =
     PDict [(''events'', PList [text_event (str ''U1'') dinner_message,
                               text_event (str ''U1'') rent_message,
                               text_event (str ''U2'') bus_message])]"

definition broken_body :: "rat pyval" where
  "broken_body =
     PDict [(''events'', PList [text_event (str ''U1'') dinner_message, PStr (str ''x'')])]"

definition flaky_world :: "rat world" where
  "flaky_world =
     \<lparr>rows = [], fault = (\<lambda>i. if i = 1 then Some ''ProvisionedThroughputExceededException''
                                else None),
      calls = 0, clock = (\<lambda>i. feb_first_2024\<lparr>dt_microsecond := i\<rparr>), ticks = 0\<rparr>"

section \<open>Monthly summary: the date range\<close>

text \<open>
  C1. The monthly summary is claimed to select the active records created in the half-open
  interval from the first instant of the month to the first instant of the next month, the
  end excluded. The filter of the source is \<open>created_at BETWEEN :start_date AND :end_date\<close>,
  which includes both ends: a record created by \<open>create\<close> exactly at 2024-02-01T00:00:00 is
  counted in the summary of January 2024, and in the summary of February 2024 as well.
\<close>

theorem monthly_summary_counts_first_instant_of_next_month:
  "map (\<lambda>r. r ''created_at'') (rows (snd (create midnight_world salary_record)))
     = [Some (PStr (str ''2024-02-01T00:00:00''))]
   \<and> fst (get_monthly_summary (snd (create midnight_world salary_record)) 2024 1)
     = Inr (Success \<lparr>year = 2024, month = 1, income_total = 300000, expense_total = 0,
                     net_amount = 300000, income_count = 1, expense_count = 0,
                     total_records = 1\<rparr>)
   \<and> fst (get_monthly_summary (snd (create midnight_world salary_record)) 2024 2)
     = Inr (Success \<lparr>year = 2024, month = 2, income_total = 300000, expense_total = 0,
                     net_amount = 300000, income_count = 1, expense_count = 0,
                     total_records = 1\<rparr>)"
  by (simp add: create_def get_current_timestamp_def now_def midnight_world_def
      salary_record_def put_item_def storage_call_def create_item_def drop_none_def
      get_monthly_summary_def
      py_datetime_def days_in_month_def is_leap_def scan_def monthly_filter_def
      attribute_between_def attribute_not_exists_def isoformat_def zpad_def dec_digits.simps
      str_def income_tag_def expense_tag_def feb_first_2024_def Let_def)

section \<open>Errors at the boundary of the operations\<close>

text \<open>
  C2. Every operation is claimed to return a tagged failure instead of raising, and
  \<open>get_monthly_summary\<close> to do so for every year and month. The source builds the two
  dates before it enters its \<open>try\<close> block: for month 13, on every table, \<open>datetime\<close> raises
  \<open>ValueError\<close>, which leaves the operation, and the table is not read.
\<close>

theorem monthly_summary_raises_for_month_13:
  "get_monthly_summary w 2024 13 = (Inl ValueError, w)"
  by (simp add: get_monthly_summary_def py_datetime_def)

section \<open>Monthly summary: the two buckets\<close>

lemma tags_differ:
  "income_tag \<noteq> expense_tag" "expense_tag \<noteq> income_tag"
  "income_tag \<noteq> []" "expense_tag \<noteq> []" "[] \<noteq> income_tag" "[] \<noteq> expense_tag"
  by (simp_all add: income_tag_def expense_tag_def)

lemma tally_skip:
  "\<not> recognised r \<Longrightarrow> tally (r # records) acc = tally records acc"
  by (cases acc)
     (auto simp: recognised_def is_income_def is_expense_def tags_differ Let_def
           split: option.splits)

lemma tally_recognised_only: "tally records acc = tally (filter recognised records) acc"
proof (induction records arbitrary: acc)
  case Nil
  show ?case by simp
next
  case (Cons r records)
  show ?case
  proof (cases "recognised r")
    case False
    then show ?thesis using Cons.IH by (simp add: tally_skip)
  next
    case True
    obtain it et ic ec where acc: "acc = (it, et, ic, ec)" by (cases acc) auto
    show ?thesis using True Cons.IH
      by (simp add: acc Let_def split: option.splits sum.splits)
  qed
qed

lemma tally_counts:
  "tally records (it, et, ic, ec) = Inr (it', et', ic', ec') \<Longrightarrow>
     ic' = ic + length (filter is_income records) \<and> ec' = ec + length (filter is_expense records)"
proof (induction records arbitrary: it et ic ec)
  case Nil
  then show ?case by simp
next
  case (Cons r records)
  show ?case
  proof (cases "is_income r")
    case True
    then have ne: "\<not> is_expense r"
      by (auto simp: is_income_def is_expense_def tags_differ)
    from Cons.prems True obtain t where
      "tally records (t, et, Suc ic, ec) = Inr (it', et', ic', ec')"
      by (auto simp: is_income_def Let_def tags_differ split: sum.splits)
    from Cons.IH[OF this] True ne show ?thesis by simp
  next
    case False
    note ni = this
    show ?thesis
    proof (cases "is_expense r")
      case True
      from Cons.prems True ni obtain t where
        "tally records (it, t, ic, Suc ec) = Inr (it', et', ic', ec')"
        by (auto simp: is_income_def is_expense_def Let_def tags_differ
                 split: sum.splits option.splits if_splits)
      from Cons.IH[OF this] True ni show ?thesis by simp
    next
      case False
      with ni have "\<not> recognised r" by (simp add: recognised_def)
      then have "tally (r # records) (it, et, ic, ec) = tally records (it, et, ic, ec)"
        by (rule tally_skip)
      with Cons.prems have "tally records (it, et, ic, ec) = Inr (it', et', ic', ec')" by simp
      from Cons.IH[OF this] False ni show ?thesis by simp
    qed
  qed
qed

lemma count_buckets:
  "length (filter is_income records) + length (filter is_expense records)
     = length (filter recognised records)"
  by (induction records) (auto simp: recognised_def is_income_def is_expense_def tags_differ)

lemma length_filter_eq_iff: "length (filter P xs) = length xs \<longleftrightarrow> (\<forall>x\<in>set xs. P x)"
  by (metis filter_id_conv length_filter_le filter_True length_filter_less
      not_less_iff_gr_or_eq)

lemma get_monthly_summary_success:
  assumes "get_monthly_summary w y m = (Inr (Success s), w')"
  shows "\<exists>it et ic ec.
           tally (matched_records w y m) (0, 0, 0, 0) = Inr (it, et, ic, ec)
           \<and> s = \<lparr>year = y, month = m, income_total = it, expense_total = et,
                  net_amount = it - et, income_count = ic, expense_count = ec,
                  total_records = length (matched_records w y m)\<rparr>"
  using assms
  by (auto simp: get_monthly_summary_def matched_records_def scan_def storage_call_def
           split: sum.splits option.splits prod.splits if_splits)

text \<open>
  C10. Whenever the monthly summary succeeds, over the records matched by its scan: every
  matched record is counted in \<open>total_records\<close>; the two buckets count the records tagged
  income and expense; a record with any other transaction type is in neither bucket, and
  the totals, the counts and the net amount are those of the matched list with these records
  removed, so that their amounts contribute nothing; the two counts sum to at most
  \<open>total_records\<close>, with equality exactly when every matched record carries one of the two
  tags.
\<close>

theorem monthly_summary_ignores_unrecognised_types:
  assumes "get_monthly_summary w y m = (Inr (Success s), w')"
  shows "total_records s = length (matched_records w y m)
       \<and> income_count s = length (filter is_income (matched_records w y m))
       \<and> expense_count s = length (filter is_expense (matched_records w y m))
       \<and> tally (filter recognised (matched_records w y m)) (0, 0, 0, 0)
           = Inr (income_total s, expense_total s, income_count s, expense_count s)
       \<and> net_amount s = income_total s - expense_total s
       \<and> income_count s + expense_count s \<le> total_records s
       \<and> (income_count s + expense_count s = total_records s
            \<longleftrightarrow> (\<forall>r \<in> set (matched_records w y m). recognised r))"
proof -
  let ?rs = "matched_records w y m"
  from get_monthly_summary_success[OF assms] obtain it et ic ec where
    t: "tally ?rs (0, 0, 0, 0) = Inr (it, et, ic, ec)" and
    s: "s = \<lparr>year = y, month = m, income_total = it, expense_total = et,
             net_amount = it - et, income_count = ic, expense_count = ec,
             total_records = length ?rs\<rparr>"
    by blast
  from tally_counts[OF t] have
    c: "ic = length (filter is_income ?rs)" "ec = length (filter is_expense ?rs)"
    by simp_all
  have f: "tally (filter recognised ?rs) (0, 0, 0, 0) = Inr (it, et, ic, ec)"
    using t tally_recognised_only[of ?rs "(0, 0, 0, 0)"] by simp
  have sum: "ic + ec = length (filter recognised ?rs)"
    using c count_buckets[of ?rs] by simp
  have le: "ic + ec \<le> length ?rs"
    unfolding sum by (rule length_filter_le)
  have eq: "ic + ec = length ?rs \<longleftrightarrow> (\<forall>r \<in> set ?rs. recognised r)"
    unfolding sum by (rule length_filter_eq_iff)
  show ?thesis
    using c f le eq by (simp add: s)
qed

lemma january_summary:
  "get_monthly_summary january_world 2024 1
     = (Inr (Success \<lparr>year = 2024, month = 1, income_total = 100, expense_total = 30,
                      net_amount = 70, income_count = 1, expense_count = 1,
                      total_records = 3\<rparr>), january_world\<lparr>calls := 1\<rparr>)"
  by (simp add: january_world_def get_monthly_summary_def py_datetime_def days_in_month_def
      scan_def storage_call_def monthly_filter_def attribute_between_def
      attribute_not_exists_def isoformat_def zpad_def dec_digits.simps str_def income_tag_def
      expense_tag_def Let_def)

theorem monthly_summary_ignores_unrecognised_types_witness:
  "get_monthly_summary january_world 2024 1
     = (Inr (Success \<lparr>year = 2024, month = 1, income_total = 100, expense_total = 30,
                      net_amount = 70, income_count = 1, expense_count = 1,
                      total_records = 3\<rparr>), january_world\<lparr>calls := 1\<rparr>)
   \<and> length (matched_records january_world 2024 1) = 3
   \<and> length (filter is_income (matched_records january_world 2024 1)) = 1
   \<and> length (filter is_expense (matched_records january_world 2024 1)) = 1
   \<and> tally (filter recognised (matched_records january_world 2024 1)) (0, 0, 0, 0)
       = Inr (100, 30, 1, 1)
   \<and> \<not> (\<forall>r \<in> set (matched_records january_world 2024 1). recognised r)"
  using monthly_summary_ignores_unrecognised_types[OF january_summary] january_summary
  by simp

section \<open>Total amount\<close>

lemma sum_amounts_present:
  "sum_amounts rt data acc = sum_amounts rt (filter amount_present data) acc"
  by (induction data arbitrary: acc)
     (auto simp: amount_present_def split: option.splits pyval.splits sum.splits)

lemma sum_amounts_numbers:
  "\<forall>r \<in> set data. amount_present r \<longrightarrow> amount_number r \<noteq> None \<Longrightarrow>
   sum_amounts rt data acc
     = Inr (foldl (+) acc (map (float_of_num rt) (List.map_filter amount_number data)))"
  by (induction data arbitrary: acc)
     (auto simp: amount_present_def amount_number_def List.map_filter_simps
           split: option.splits pyval.splits sum.splits)

text \<open>
  C4 as stated fails for the filter \<open>''\<close>: the source tests \<open>if transaction_type:\<close>, so an
  empty string counts as no filter. On the three example records the query by the
  transaction type \<open>''\<close> matches nothing, while \<open>get_total_amount('')\<close> totals all three.
\<close>

theorem total_amount_empty_filter_counterexample:
  "fst (query_by_transaction_type amounts_world []) = Success ([], 0)
   \<and> fst (get_total_amount example_runtime amounts_world (Some []))
       = Inr (Success \<lparr>total_amount = 150, record_count = 3,
                       transaction_type_filter = Some []\<rparr>)"
  by (simp add: get_total_amount_def query_by_transaction_type_def list_all_records_def
      scan_def storage_call_def amounts_world_def attribute_not_exists_def attribute_eq_def
      example_runtime_def income_tag_def expense_tag_def)

text \<open>
  C4, amended. The records come from the query by transaction type when the filter is a
  non-empty string, and from \<open>list_all()\<close> over the active records when it is \<open>None\<close> or
  empty. A failure of that listing is returned as it is. On success the total is computed
  from the records that carry an amount only, while \<open>record_count\<close> is the number of all
  listed records; when the amounts carried are numbers, the total is their sum (taken from
  the left, each converted by \<open>float\<close>).
\<close>

theorem get_total_amount_sums_present_amounts:
  assumes "(\<exists>t. arg = Some t \<and> t \<noteq> [] \<and> query_by_transaction_type w t = (res, w1))
         \<or> ((arg = None \<or> arg = Some []) \<and> list_all_records w False = (res, w1))"
  shows "(\<forall>e. res = Failure e \<longrightarrow> get_total_amount rt w arg = (Inr (Failure e), w1))
       \<and> (\<forall>data n. res = Success (data, n) \<longrightarrow>
            get_total_amount rt w arg
              = (case sum_amounts rt (filter amount_present data) 0 of
                   Inl e \<Rightarrow> (Inl e, w1)
                 | Inr t \<Rightarrow> (Inr (Success \<lparr>total_amount = t, record_count = length data,
                                            transaction_type_filter = arg\<rparr>), w1))
            \<and> ((\<forall>r \<in> set data. amount_present r \<longrightarrow> amount_number r \<noteq> None) \<longrightarrow>
                 get_total_amount rt w arg
                   = (Inr (Success \<lparr>total_amount = foldl (+) 0 (map (float_of_num rt)
                                                      (List.map_filter amount_number data)),
                                    record_count = length data,
                                    transaction_type_filter = arg\<rparr>), w1)))"
proof -
  have src: "(case arg of
                Some t \<Rightarrow> if t \<noteq> [] then query_by_transaction_type w t
                          else list_all_records w False
              | None \<Rightarrow> list_all_records w False) = (res, w1)"
    using assms by auto
  show ?thesis
    unfolding get_total_amount_def src
    by (auto simp: sum_amounts_present[symmetric] sum_amounts_numbers split: sum.splits)
qed

lemma amounts_listing:
  "list_all_records amounts_world False
     = (Success (rows amounts_world, 3), amounts_world\<lparr>calls := 1\<rparr>)"
  by (simp add: list_all_records_def scan_def storage_call_def amounts_world_def
      attribute_not_exists_def)

theorem get_total_amount_sums_present_amounts_witness:
  "list_all_records amounts_world False
     = (Success (rows amounts_world, 3), amounts_world\<lparr>calls := 1\<rparr>)
   \<and> map amount_number (rows amounts_world) = [Some 100, None, Some 50]
   \<and> get_total_amount example_runtime amounts_world None
     = (Inr (Success \<lparr>total_amount = 150, record_count = 3,
                      transaction_type_filter = None\<rparr>), amounts_world\<lparr>calls := 1\<rparr>)"
  using get_total_amount_sums_present_amounts[of None amounts_world
      "Success (rows amounts_world, 3)" "amounts_world\<lparr>calls := 1\<rparr>" example_runtime]
    amounts_listing
  by (simp add: amounts_world_def example_runtime_def amount_present_def amount_number_def
      List.map_filter_simps)

section \<open>Soft delete and listing\<close>

lemma timestamp_eq:
  "get_current_timestamp w = (isoformat (clock w (ticks w)), w\<lparr>ticks := Suc (ticks w)\<rparr>)"
  by (simp add: get_current_timestamp_def now_def)

lemma update_item_success:
  assumes "update_item kn w k sc vals = (Inr r', w')"
  shows "distinct sc \<and> kn \<notin> set sc \<and> (\<forall>a \<in> set sc. vals a \<noteq> None)
       \<and> w' = w\<lparr>calls := Suc (calls w),
                  rows := (if \<exists>r \<in> set (rows w). has_key kn k r
                           then map (\<lambda>r. if has_key kn k r then assign_attrs sc vals r else r) (rows w)
                           else rows w @ [assign_attrs sc vals [kn \<mapsto> PStr k]])\<rparr>
       \<and> (\<exists>r0. r' = assign_attrs sc vals r0 \<and> has_key kn k r0
                \<and> (r0 \<in> set (rows w) \<or> (r0 = [kn \<mapsto> PStr k] \<and> (\<forall>r \<in> set (rows w). \<not> has_key kn k r))))
       \<and> r' \<in> set (rows w')"
proof (cases "find (has_key kn k) (rows w)")
  case None
  then have no: "\<forall>r \<in> set (rows w). \<not> has_key kn k r" by (auto simp: find_None_iff)
  from assms None no show ?thesis
    by (auto simp: update_item_def storage_call_def has_key_def split: option.splits if_splits)
next
  case (Some r0)
  then have r0: "r0 \<in> set (rows w)" "has_key kn k r0"
    by (auto simp: find_Some_iff)
  from assms Some r0 show ?thesis
    by (auto simp: update_item_def storage_call_def split: option.splits if_splits
             intro!: exI[of _ r0] image_eqI[of _ _ r0])
qed

lemma list_all_records_eq:
  "list_all_records w b
     = (case fault w (calls w) of
          Some m \<Rightarrow> (Failure m, w\<lparr>calls := Suc (calls w)\<rparr>)
        | None \<Rightarrow>
            (Success (if b then rows w else filter (\<lambda>x. x ''deleted_at'' = None) (rows w),
                      length (if b then rows w
                              else filter (\<lambda>x. x ''deleted_at'' = None) (rows w))),
             w\<lparr>calls := Suc (calls w)\<rparr>))"
proof -
  have flt: "attribute_not_exists ''deleted_at'' = (\<lambda>x::'a item. x ''deleted_at'' = None)"
    by (rule ext) (simp add: attribute_not_exists_def)
  show ?thesis
    by (simp add: list_all_records_def scan_def storage_call_def flt split: option.splits)
qed

lemma delete_soft_success:
  assumes "delete w k True = (Success d, w')"
  shows "update_item ''pk'' (w\<lparr>ticks := Suc (ticks w)\<rparr>) k [''deleted_at'']
           [''deleted_at'' \<mapsto> PStr (isoformat (clock w (ticks w)))] = (Inr d, w')"
  using assms
  by (auto simp: delete_def timestamp_eq split: prod.splits sum.splits)

lemma assign_deleted_at:
  "assign_attrs [''deleted_at''] [''deleted_at'' \<mapsto> v] r = r(''deleted_at'' \<mapsto> v)"
  by (auto simp: assign_attrs_def)

text \<open>
  C6. For a record \<open>r\<close> of the table with the key \<open>k\<close>, after a soft delete of \<open>k\<close> that
  succeeds, the table is the table before with \<open>deleted_at\<close> set to the time of the delete
  in the items of the key \<open>k\<close>. A listing then reads the table with one call to the storage
  service and fails only when that call raises. The listing without the deleted records
  returns exactly the items that have no \<open>deleted_at\<close> attribute, whatever value the
  attribute has in the others, with their number, and none of them has the key \<open>k\<close>. The
  listing with the deleted records returns the whole table, with its length, and \<open>r\<close> stands
  in it with \<open>deleted_at\<close> set to the time of the delete.
\<close>

theorem soft_delete_then_list_all:
  assumes "r \<in> set (rows w)" and "r ''pk'' = Some (PStr k)"
    and "delete w k True = (Success d, w')"
  shows "rows w' = map (\<lambda>x. if x ''pk'' = Some (PStr k)
                             then x(''deleted_at'' \<mapsto> PStr (isoformat (clock w (ticks w))))
                             else x) (rows w)
       \<and> list_all_records w' False
           = (case fault w' (calls w') of
                Some m \<Rightarrow> (Failure m, w'\<lparr>calls := Suc (calls w')\<rparr>)
              | None \<Rightarrow>
                  (Success (filter (\<lambda>x. x ''deleted_at'' = None) (rows w'),
                            length (filter (\<lambda>x. x ''deleted_at'' = None) (rows w'))),
                   w'\<lparr>calls := Suc (calls w')\<rparr>))
       \<and> (\<forall>x \<in> set (filter (\<lambda>x. x ''deleted_at'' = None) (rows w')).
             x ''pk'' \<noteq> Some (PStr k))
       \<and> list_all_records w' True
           = (case fault w' (calls w') of
                Some m \<Rightarrow> (Failure m, w'\<lparr>calls := Suc (calls w')\<rparr>)
              | None \<Rightarrow> (Success (rows w', length (rows w')), w'\<lparr>calls := Suc (calls w')\<rparr>))
       \<and> r(''deleted_at'' \<mapsto> PStr (isoformat (clock w (ticks w)))) \<in> set (rows w')"
proof -
  let ?ts = "PStr (isoformat (clock w (ticks w)))"
  let ?del = "\<lambda>x. if x ''pk'' = Some (PStr k) then x(''deleted_at'' \<mapsto> ?ts) else x"
  have hit: "\<exists>x \<in> set (rows w). has_key ''pk'' k x"
    using assms(1,2) by (auto simp: has_key_def)
  from update_item_success[OF delete_soft_success[OF assms(3)]] hit
  have rows': "rows w' = map ?del (rows w)"
    by (simp add: assign_deleted_at has_key_def)
  have gone: "\<forall>x \<in> set (filter (\<lambda>x. x ''deleted_at'' = None) (rows w')).
                x ''pk'' \<noteq> Some (PStr k)"
    unfolding rows' by (auto split: if_splits)
  have kept: "r(''deleted_at'' \<mapsto> ?ts) \<in> set (rows w')"
    unfolding rows' using assms(1,2) by (auto intro!: image_eqI[of _ _ r])
  have la: "list_all_records w' False
           = (case fault w' (calls w') of
                Some m \<Rightarrow> (Failure m, w'\<lparr>calls := Suc (calls w')\<rparr>)
              | None \<Rightarrow>
                  (Success (filter (\<lambda>x. x ''deleted_at'' = None) (rows w'),
                            length (filter (\<lambda>x. x ''deleted_at'' = None) (rows w'))),
                   w'\<lparr>calls := Suc (calls w')\<rparr>))"
    by (simp add: list_all_records_eq)
  have lb: "list_all_records w' True
           = (case fault w' (calls w') of
                Some m \<Rightarrow> (Failure m, w'\<lparr>calls := Suc (calls w')\<rparr>)
              | None \<Rightarrow> (Success (rows w', length (rows w')), w'\<lparr>calls := Suc (calls w')\<rparr>))"
    by (simp add: list_all_records_eq)
  show ?thesis
    by (intro conjI) (rule rows' la gone lb kept)+
qed

lemma january_delete:
  "\<exists>d w'. delete january_world (str ''a'') True = (Success d, w')
     \<and> fault w' (calls w') = None
     \<and> map (\<lambda>r. r ''pk'') (filter (\<lambda>x. x ''deleted_at'' = None) (rows w'))
         = [Some (PStr (str ''b'')), Some (PStr (str ''c''))]
     \<and> map (\<lambda>r. r ''pk'') (rows w')
         = [Some (PStr (str ''a'')), Some (PStr (str ''b'')), Some (PStr (str ''c''))]
     \<and> map (\<lambda>r. r ''deleted_at'') (rows w')
         = [Some (PStr (isoformat (clock january_world (ticks january_world)))), None, None]"
  by (simp add: delete_def timestamp_eq update_item_def storage_call_def has_key_def
      assign_attrs_def january_world_def str_def)

theorem soft_delete_then_list_all_witness:
  "\<exists>d w' active every w''.
     delete january_world (str ''a'') True = (Success d, w')
     \<and> list_all_records w' False = (Success (active, 2), w'')
     \<and> map (\<lambda>r. r ''pk'') active = [Some (PStr (str ''b'')), Some (PStr (str ''c''))]
     \<and> list_all_records w' True = (Success (every, 3), w'')
     \<and> map (\<lambda>r. r ''pk'') every
         = [Some (PStr (str ''a'')), Some (PStr (str ''b'')), Some (PStr (str ''c''))]
     \<and> map (\<lambda>r. r ''deleted_at'') every
         = [Some (PStr (str ''2024-02-01T00:00:00'')), None, None]"
proof -
  from january_delete obtain d w' where
    del: "delete january_world (str ''a'') True = (Success d, w')" and
    ok: "fault w' (calls w') = None" and
    act: "map (\<lambda>r. r ''pk'') (filter (\<lambda>x. x ''deleted_at'' = None) (rows w'))
            = [Some (PStr (str ''b'')), Some (PStr (str ''c''))]" and
    pks: "map (\<lambda>r. r ''pk'') (rows w')
            = [Some (PStr (str ''a'')), Some (PStr (str ''b'')), Some (PStr (str ''c''))]" and
    dels: "map (\<lambda>r. r ''deleted_at'') (rows w')
            = [Some (PStr (isoformat (clock january_world (ticks january_world)))), None, None]"
    by (elim exE conjE)
  let ?r = "hd (rows january_world)"
  let ?active = "filter (\<lambda>x. x ''deleted_at'' = None) (rows w')"
  let ?w'' = "w'\<lparr>calls := Suc (calls w')\<rparr>"
  have mem: "?r \<in> set (rows january_world)" and key: "?r ''pk'' = Some (PStr (str ''a''))"
    by (simp_all add: january_world_def)
  have iso: "isoformat (clock january_world (ticks january_world)) = str ''2024-02-01T00:00:00''"
    by (simp add: january_world_def feb_first_2024_def isoformat_def zpad_def dec_digits.simps
        str_def)
  have n2: "length ?active = 2"
    using arg_cong[OF act, of length] by simp
  have n3: "length (rows w') = 3"
    using arg_cong[OF pks, of length] by simp
  note t = soft_delete_then_list_all[OF mem key del]
  have la: "list_all_records w' False = (Success (?active, 2), ?w'')"
    using t[THEN conjunct2, THEN conjunct1] by (simp add: ok n2)
  have lb: "list_all_records w' True = (Success (rows w', 3), ?w'')"
    using t[THEN conjunct2, THEN conjunct2, THEN conjunct2, THEN conjunct1]
    by (simp add: ok n3)
  show ?thesis
    by (intro exI[of _ d] exI[of _ w'] exI[of _ ?active] exI[of _ "rows w'"] exI[of _ ?w'']
          conjI)
       (rule del la act lb pks dels[unfolded iso])+
qed

section \<open>Update\<close>

lemma update_fields_eq:
  "update_fields kn kwargs (ex, vals)
     = (ex @ map fst (kept_fields kn kwargs), bind_all (kept_fields kn kwargs) vals)"
  by (induction kwargs arbitrary: ex vals)
     (auto simp: kept_fields_def bind_all_def)

lemma bind_all_other: "a \<notin> fst ` set fs \<Longrightarrow> bind_all fs vals a = vals a"
  by (induction fs arbitrary: vals) (auto simp: bind_all_def)

lemma bind_all_distinct:
  "distinct (map fst fs) \<Longrightarrow> (key, v) \<in> set fs \<Longrightarrow> bind_all fs vals key = Some v"
proof (induction fs arbitrary: vals)
  case Nil
  then show ?case by simp
next
  case (Cons p fs)
  obtain k' v' where p: "p = (k', v')" by (cases p)
  have step: "bind_all (p # fs) vals = bind_all fs (vals(k' \<mapsto> v'))"
    by (simp add: bind_all_def p)
  show ?case
  proof (cases "(key, v) = p")
    case True
    then have "key \<notin> fst ` set fs" using Cons.prems(1) p by auto
    then have "bind_all fs (vals(k' \<mapsto> v')) key = (vals(k' \<mapsto> v')) key"
      by (rule bind_all_other)
    then show ?thesis using True p step by simp
  next
    case False
    then have "(key, v) \<in> set fs" using Cons.prems(2) by simp
    moreover have "distinct (map fst fs)" using Cons.prems(1) by simp
    ultimately show ?thesis using Cons.IH by (simp add: step)
  qed
qed



lemma kept_fields_keys:
  "a \<in> fst ` set (kept_fields kn kwargs) \<longleftrightarrow> a \<noteq> kn \<and> (\<exists>v. (a, v) \<in> set kwargs \<and> v \<noteq> PNone)"
  by (force simp: kept_fields_def)

text \<open>The common part of \<open>update\<close> and \<open>update_line_transaction\<close>.\<close>

lemma update_core:
  assumes ok: "update_item kn (w\<lparr>ticks := Suc (ticks w)\<rparr>) k
                 (''updated_at'' # map fst (kept_fields kn kwargs))
                 (bind_all (kept_fields kn kwargs)
                    [''updated_at'' \<mapsto> PStr (isoformat (clock w (ticks w)))]) = (Inr item', w')"
    and nk: "kn \<notin> fst ` set kwargs"
  shows "update_effect kn w k kwargs item' w'"
proof -
  let ?fs = "kept_fields kn kwargs"
  let ?sc = "''updated_at'' # map fst ?fs"
  let ?ts = "PStr (isoformat (clock w (ticks w)))"
  let ?vals = "bind_all ?fs [''updated_at'' \<mapsto> ?ts]"
  let ?w1 = "w\<lparr>ticks := Suc (ticks w)\<rparr>"
  from update_item_success[OF ok] obtain r0 where
    dist: "distinct ?sc" and knsc: "kn \<notin> set ?sc" and
    w': "w' = ?w1\<lparr>calls := Suc (calls ?w1),
                  rows := (if \<exists>r \<in> set (rows ?w1). has_key kn k r
                           then map (\<lambda>r. if has_key kn k r then assign_attrs ?sc ?vals r else r)
                                  (rows ?w1)
                           else rows ?w1 @ [assign_attrs ?sc ?vals [kn \<mapsto> PStr k]])\<rparr>" and
    item': "item' = assign_attrs ?sc ?vals r0" and r0k: "has_key kn k r0" and
    r0: "r0 \<in> set (rows ?w1) \<or> (r0 = [kn \<mapsto> PStr k] \<and> (\<forall>r \<in> set (rows ?w1). \<not> has_key kn k r))" and
    mem: "item' \<in> set (rows w')"
    by blast
  have up: "''updated_at'' \<notin> fst ` set ?fs" and dfs: "distinct (map fst ?fs)"
    using dist by auto
  have c2: "item' kn = Some (PStr k)"
    using knsc r0k by (simp add: item' assign_attrs_def has_key_def)
  have c3: "item' ''updated_at'' = Some ?ts"
    using up by (simp add: item' assign_attrs_def bind_all_other)
  have c4: "\<forall>(key, v) \<in> set kwargs. v \<noteq> PNone \<longrightarrow> item' key = Some v"
  proof (clarify)
    fix key v assume kv: "(key, v) \<in> set kwargs" and v: "v \<noteq> PNone"
    from kv nk have "key \<noteq> kn" by force
    with kv v have "(key, v) \<in> set ?fs" by (simp add: kept_fields_def)
    then show "item' key = Some v"
      using bind_all_distinct[OF dfs, of key v] by (force simp: item' assign_attrs_def)
  qed
  have c5: "\<exists>r0. (if \<exists>r \<in> set (rows w). has_key kn k r
                  then r0 \<in> set (rows w) \<and> has_key kn k r0
                  else r0 = [kn \<mapsto> PStr k])
               \<and> (\<forall>a. a \<noteq> ''updated_at'' \<and> (\<forall>v. (a, v) \<in> set kwargs \<longrightarrow> v = PNone)
                      \<longrightarrow> item' a = r0 a)"
  proof (intro exI[of _ r0] conjI allI impI)
    show "if \<exists>r \<in> set (rows w). has_key kn k r
          then r0 \<in> set (rows w) \<and> has_key kn k r0 else r0 = [kn \<mapsto> PStr k]"
      using r0 r0k by auto
  next
    fix a assume a: "a \<noteq> ''updated_at'' \<and> (\<forall>v. (a, v) \<in> set kwargs \<longrightarrow> v = PNone)"
    then have "a \<notin> fst ` set ?fs" by (auto simp: kept_fields_keys)
    with a show "item' a = r0 a" by (auto simp: item' assign_attrs_def)
  qed
  have keep: "assign_attrs ?sc ?vals r kn = r kn" for r :: "'a item"
    using knsc by (simp add: assign_attrs_def)
  have c7: "map (\<lambda>r. r kn) (rows w')
          = map (\<lambda>r. r kn) (rows w)
            @ (if \<exists>r \<in> set (rows w). has_key kn k r then [] else [Some (PStr k)])"
    by (simp add: w' keep o_def if_distrib[of "\<lambda>r. r kn"] cong: if_cong)
  from nk c2 c3 c4 c5 mem c7 show ?thesis
    unfolding update_effect_def by blast
qed

lemma update_success:
  assumes "update w k kwargs = (Inr (Success item'), w')"
  shows "''pk'' \<notin> fst ` set kwargs
       \<and> update_item ''pk'' (w\<lparr>ticks := Suc (ticks w)\<rparr>) k
            (''updated_at'' # map fst (kept_fields ''pk'' kwargs))
            (bind_all (kept_fields ''pk'' kwargs)
               [''updated_at'' \<mapsto> PStr (isoformat (clock w (ticks w)))]) = (Inr item', w')"
  using assms
  by (auto simp: update_def timestamp_eq update_fields_eq split: if_splits prod.splits sum.splits)

lemma update_line_transaction_success:
  assumes "update_line_transaction w k kwargs = (Inr (Success item'), w')"
  shows "''lmn'' \<notin> fst ` set kwargs
       \<and> update_item ''lmn'' (w\<lparr>ticks := Suc (ticks w)\<rparr>) k
            (''updated_at'' # map fst (kept_fields ''lmn'' kwargs))
            (bind_all (kept_fields ''lmn'' kwargs)
               [''updated_at'' \<mapsto> PStr (isoformat (clock w (ticks w)))]) = (Inr item', w')"
  using assms
  by (auto simp: update_line_transaction_def timestamp_eq update_fields_eq
           split: if_splits prod.splits sum.splits)

text \<open>
  C9. Every update call is claimed to leave the stored primary key unchanged, the key being
  silently ignored when it is passed among the fields, and to merge the other fields. The
  loop of the source has the guard for this (\<open>key != 'pk'\<close>, with the comment that \<open>pk\<close> is not
  updated, and \<open>key != 'lmn'\<close> in \<open>update_line_transaction\<close>), but the guard never sees the
  key: the parameter \<open>pk\<close> of \<open>update(self, pk, **kwargs)\<close> already has the key of the call, so
  a call that passes \<open>pk\<close> among the keyword fields, wherever it stands among them, raises
  \<open>TypeError\<close> before the body and its \<open>try\<close> are entered. The field is not ignored: nothing
  is merged, no result is returned, and the table is as before.
\<close>

theorem update_raises_for_key_among_fields:
  "update w k (before @ (''pk'', v) # after) = (Inl TypeError, w)
   \<and> update_line_transaction w k (before @ (''lmn'', v) # after) = (Inl TypeError, w)"
  by (simp add: update_def update_line_transaction_def)

text \<open>
  The calls that do not pass the key among the fields keep the contract. Every call of
  \<open>update\<close>, and of \<open>update_line_transaction\<close>, that returns success has the effect
  \<open>update_effect\<close>: the stored primary key is unchanged, \<open>updated_at\<close> is the time of the
  call, every supplied field that is not \<open>None\<close> is merged into the item, and the item
  returned is the stored item after the update.
\<close>

lemma update_keeps_key_and_merges:
  "(update w k kwargs = (Inr (Success item'), w') \<longrightarrow> update_effect ''pk'' w k kwargs item' w')
   \<and> (update_line_transaction w k kwargs = (Inr (Success item'), w')
        \<longrightarrow> update_effect ''lmn'' w k kwargs item' w')"
  using update_core update_success update_line_transaction_success by blast

lemma january_update:
  "\<exists>item' w'. update january_world (str ''a'') [(''amount'', PNum 900), (''category'', PNone)]
      = (Inr (Success item'), w')"
  by (simp add: update_def timestamp_eq update_item_def storage_call_def has_key_def
      january_world_def str_def)

lemma update_keeps_key_and_merges_example:
  "\<exists>item' w'. update january_world (str ''a'') [(''amount'', PNum 900), (''category'', PNone)]
        = (Inr (Success item'), w')
     \<and> item' ''pk'' = Some (PStr (str ''a''))
     \<and> item' ''updated_at'' = Some (PStr (str ''2024-02-01T00:00:00''))
     \<and> item' ''amount'' = Some (PNum 900)
     \<and> item' \<in> set (rows w')
     \<and> map (\<lambda>r. r ''pk'') (rows w')
         = [Some (PStr (str ''a'')), Some (PStr (str ''b'')), Some (PStr (str ''c''))]"
proof -
  from january_update obtain item' w' where
    u: "update january_world (str ''a'') [(''amount'', PNum 900), (''category'', PNone)]
          = (Inr (Success item'), w')"
    by blast
  have iso: "isoformat (clock january_world (ticks january_world)) = str ''2024-02-01T00:00:00''"
    by (simp add: january_world_def feb_first_2024_def isoformat_def zpad_def dec_digits.simps
        str_def)
  have hit: "\<exists>r \<in> set (rows january_world). has_key ''pk'' (str ''a'') r"
    by (simp add: january_world_def has_key_def)
  have keys: "map (\<lambda>r. r ''pk'') (rows january_world)
                = [Some (PStr (str ''a'')), Some (PStr (str ''b'')), Some (PStr (str ''c''))]"
    by (simp add: january_world_def)
  from update_keeps_key_and_merges[of january_world "str ''a''"
      "[(''amount'', PNum 900), (''category'', PNone)]" item' w'] u
  have "update_effect ''pk'' january_world (str ''a'')
          [(''amount'', PNum 900), (''category'', PNone)] item' w'"
    by blast
  then have "item' ''pk'' = Some (PStr (str ''a''))
     \<and> item' ''updated_at'' = Some (PStr (str ''2024-02-01T00:00:00''))
     \<and> item' ''amount'' = Some (PNum 900)
     \<and> item' \<in> set (rows w')
     \<and> map (\<lambda>r. r ''pk'') (rows w')
         = [Some (PStr (str ''a'')), Some (PStr (str ''b'')), Some (PStr (str ''c''))]"
    using hit by (simp add: update_effect_def iso keys)
  with u show ?thesis
    by (intro exI[of _ item'] exI[of _ w']) simp
qed

text \<open>
  The keys of the table are unchanged by every call of \<open>update\<close>, whatever it returns or
  raises: the column of the keys is as before, or has the key of the call added at its end
  when no item had that key.
\<close>

lemma update_item_key_column:
  "map (\<lambda>r. r kn) (rows (snd (update_item kn w k sc vals))) = map (\<lambda>r. r kn) (rows w)
   \<or> (map (\<lambda>r. r kn) (rows (snd (update_item kn w k sc vals)))
         = map (\<lambda>r. r kn) (rows w) @ [Some (PStr k)]
       \<and> (\<forall>r \<in> set (rows w). r kn \<noteq> Some (PStr k)))"
proof (cases "update_item kn w k sc vals")
  case (Pair res w')
  show ?thesis
  proof (cases res)
    case (Inl e)
    with Pair have "rows w' = rows w"
      by (auto simp: update_item_def storage_call_def split: option.splits if_splits)
    with Pair show ?thesis by simp
  next
    case (Inr r')
    from update_item_success[of kn w k sc vals r' w'] Pair Inr
    have nk: "kn \<notin> set sc" and
      w': "rows w' = (if \<exists>r \<in> set (rows w). has_key kn k r
                           then map (\<lambda>r. if has_key kn k r then assign_attrs sc vals r else r) (rows w)
                           else rows w @ [assign_attrs sc vals [kn \<mapsto> PStr k]])"
      by simp_all
    have keep: "assign_attrs sc vals r kn = r kn" for r :: "'a item"
      using nk by (simp add: assign_attrs_def)
    have "map (\<lambda>r. r kn) (rows w')
          = map (\<lambda>r. r kn) (rows w)
            @ (if \<exists>r \<in> set (rows w). has_key kn k r then [] else [Some (PStr k)])"
      by (simp add: w' keep o_def if_distrib[of "\<lambda>r. r kn"] cong: if_cong)
    with Pair show ?thesis by (auto simp: has_key_def)
  qed
qed

lemma update_stored_keys:
  "map (\<lambda>r. r ''pk'') (rows (snd (update w k kwargs))) = map (\<lambda>r. r ''pk'') (rows w)
   \<or> (map (\<lambda>r. r ''pk'') (rows (snd (update w k kwargs)))
         = map (\<lambda>r. r ''pk'') (rows w) @ [Some (PStr k)]
       \<and> (\<forall>r \<in> set (rows w). r ''pk'' \<noteq> Some (PStr k)))"
proof (cases "''pk'' \<in> set (map fst kwargs)")
  case True
  then show ?thesis by (simp add: update_def)
next
  case False
  then have "snd (update w k kwargs)
        = snd (update_item ''pk'' (w\<lparr>ticks := Suc (ticks w)\<rparr>) k
                 (''updated_at'' # map fst (kept_fields ''pk'' kwargs))
                 (bind_all (kept_fields ''pk'' kwargs)
                    [''updated_at'' \<mapsto> PStr (isoformat (clock w (ticks w)))]))"
    by (simp add: update_def timestamp_eq update_fields_eq split: prod.splits sum.splits)
  with update_item_key_column[of "''pk''" "w\<lparr>ticks := Suc (ticks w)\<rparr>" k] show ?thesis
    by simp
qed

section \<open>No stored \<open>None\<close>\<close>
























section \<open>Message Parser: the amount\<close>

lemma take_groups_other: "c \<noteq> 44 \<Longrightarrow> take_groups dg (c # s) = ([], c # s)"
  by (cases "(dg, c # s)" rule: take_groups.cases) auto

lemma take_groups_sound:
  "take_groups dg s = (g, r) \<Longrightarrow> s = g @ r \<and> (\<exists>gs. g = concat gs \<and> (\<forall>x \<in> set gs. is_group dg x))"
proof (induction dg s arbitrary: g r rule: take_groups.induct)
  case (1 dg c x y z s)
  show ?case
  proof (cases "c = 44 \<and> dg x \<and> dg y \<and> dg z")
    case True
    obtain g1 r1 where t: "take_groups dg s = (g1, r1)" by (cases "take_groups dg s")
    from "1.IH"[OF True t] obtain gs where
      s: "s = g1 @ r1" and gs: "g1 = concat gs" "\<forall>x \<in> set gs. is_group dg x" by blast
    from "1.prems" True t have g: "g = c # x # y # z # g1" and r: "r = r1" by auto
    have "is_group dg [c, x, y, z]" using True by (simp add: is_group_def)
    then have "g = concat ([c, x, y, z] # gs)" and "\<forall>a \<in> set ([c, x, y, z] # gs). is_group dg a"
      using g gs by simp_all
    then have "\<exists>gs. g = concat gs \<and> (\<forall>a \<in> set gs. is_group dg a)" by blast
    moreover have "c # x # y # z # s = g @ r" using s g r by simp
    ultimately show ?thesis by blast
  next
    case False
    with "1.prems" have "g = []" "r = c # x # y # z # s" by auto
    then show ?thesis by (auto intro: exI[of _ "[]"])
  qed
qed (auto intro: exI[of _ "[]"])

lemma take_fraction_sound:
  "take_fraction dg s = (fr, r) \<Longrightarrow> s = fr @ r \<and> (fr = [] \<or> is_fraction dg fr)"
  by (auto simp: take_fraction_def is_fraction_def split: list.splits if_splits
           dest: set_takeWhileD)

lemma match_here_None: "match_here dg s = None \<longleftrightarrow> takeWhile dg s = []"
  by (auto simp: match_here_def split: prod.splits)

lemma match_here_sound:
  assumes "match_here dg s = Some m"
  shows "\<exists>post. s = m @ post \<and> number_pattern dg m"
proof -
  from assms have ne: "takeWhile dg s \<noteq> []"
    by (auto simp: match_here_def split: if_splits)
  obtain g r where tg: "take_groups dg (dropWhile dg s) = (g, r)"
    by (cases "take_groups dg (dropWhile dg s)")
  obtain fr r2 where tf: "take_fraction dg r = (fr, r2)" by (cases "take_fraction dg r")
  from assms ne tg tf have m: "m = takeWhile dg s @ g @ fr"
    by (simp add: match_here_def)
  from take_groups_sound[OF tg] obtain gs where
    d: "dropWhile dg s = g @ r" and gs: "g = concat gs" "\<forall>x \<in> set gs. is_group dg x" by blast
  from take_fraction_sound[OF tf] have f: "r = fr @ r2" "fr = [] \<or> is_fraction dg fr" by auto
  have "s = takeWhile dg s @ dropWhile dg s" by simp
  then have s: "s = m @ r2" using d f m by simp
  have "number_pattern dg m"
    unfolding number_pattern_def
    using ne gs f m by (intro exI[of _ "takeWhile dg s"] exI[of _ gs] exI[of _ fr])
                       (auto dest: set_takeWhileD)
  with s show ?thesis by blast
qed

lemma match_here_nondigit: "\<not> dg c \<Longrightarrow> match_here dg (c # s) = None"
  by (simp add: match_here_None)

lemma re_search_None: "re_search dg msg = None \<longleftrightarrow> (\<forall>c \<in> set msg. \<not> dg c)"
  by (induction msg) (auto simp: match_here_None match_here_nondigit split: option.splits)

lemma re_search_Some:
  "re_search dg msg = Some m \<Longrightarrow>
     match_here dg (dropWhile (\<lambda>c. \<not> dg c) msg) = Some m"
proof (induction msg)
  case Nil
  then show ?case by simp
next
  case (Cons c msg)
  show ?case
  proof (cases "dg c")
    case True
    then have "match_here dg (c # msg) \<noteq> None" by (simp add: match_here_None)
    with Cons.prems True show ?thesis by (auto split: option.splits)
  next
    case False
    then have "match_here dg (c # msg) = None" by (simp add: match_here_None)
    with Cons False show ?thesis by simp
  qed
qed

lemma number_pattern_starts: "number_pattern dg m \<Longrightarrow> \<exists>d t. m = d # t \<and> dg d"
  by (auto simp: number_pattern_def neq_Nil_conv)

lemma takeWhile_all: "\<forall>c \<in> set xs. P c \<Longrightarrow> takeWhile P (xs @ ys) = xs @ takeWhile P ys"
  by (induction xs) auto

lemma dropWhile_all: "\<forall>c \<in> set xs. P c \<Longrightarrow> dropWhile P (xs @ ys) = dropWhile P ys"
  by (induction xs) auto

lemma take_groups_group:
  "is_group dg x \<Longrightarrow>
     take_groups dg (x @ s) = (x @ fst (take_groups dg s), snd (take_groups dg s))"
  by (auto simp: is_group_def split: prod.splits)

text \<open>
  What follows the digits of a match, groups and a fraction, is no longer than what the
  greedy scan takes.
\<close>

lemma greedy_tail_longest:
  assumes "\<forall>x \<in> set gs. is_group dg x" and "fr = [] \<or> is_fraction dg fr"
  shows "length (concat gs @ fr)
           \<le> length (fst (take_groups dg (concat gs @ fr @ post))
                       @ fst (take_fraction dg (snd (take_groups dg (concat gs @ fr @ post)))))"
  using assms(1)
proof (induction gs)
  case Nil
  show ?case
  proof (cases "fr = []")
    case True
    then show ?thesis by simp
  next
    case False
    with assms(2) obtain fs where fr: "fr = 46 # fs" "fs \<noteq> []" "\<forall>c \<in> set fs. dg c"
      by (auto simp: is_fraction_def)
    have tg: "take_groups dg (fr @ post) = ([], fr @ post)"
      unfolding fr by (simp add: take_groups_other)
    have tw: "takeWhile dg (fs @ post) = fs @ takeWhile dg post"
      using fr(3) by (rule takeWhile_all)
    show ?thesis
      using fr(2) by (simp add: tg) (simp add: fr take_fraction_def tw)
  qed
next
  case (Cons x gs)
  then have x: "is_group dg x" and gs: "\<forall>x \<in> set gs. is_group dg x" by simp_all
  have len: "length x = 4" using x by (auto simp: is_group_def)
  show ?case
    using Cons.IH[OF gs] take_groups_group[OF x, of "concat gs @ fr @ post"]
    by simp
qed

lemma tail_starts:
  assumes "\<forall>x \<in> set gs. is_group dg x" and "fr = [] \<or> is_fraction dg fr"
    and "concat gs @ fr \<noteq> []"
  shows "\<exists>c t. concat gs @ fr = c # t \<and> (c = 44 \<or> c = 46)"
proof (cases gs)
  case Nil
  with assms show ?thesis by (auto simp: is_fraction_def)
next
  case (Cons x xs)
  with assms(1) have "is_group dg x" by simp
  then show ?thesis using Cons by (auto simp: is_group_def)
qed

lemma match_here_longest:
  assumes nd: "\<not> dg 44" "\<not> dg 46"
    and mh: "match_here dg s = Some m"
    and dec: "s = m' @ post'" and pat: "number_pattern dg m'"
  shows "length m' \<le> length m"
proof -
  from pat obtain ds gs fr where
    m': "m' = ds @ concat gs @ fr" and ds: "ds \<noteq> []" "\<forall>c \<in> set ds. dg c" and
    gs: "\<forall>g \<in> set gs. is_group dg g" and fr: "fr = [] \<or> is_fraction dg fr"
    by (auto simp: number_pattern_def)
  obtain g r where tg: "take_groups dg (dropWhile dg s) = (g, r)"
    by (cases "take_groups dg (dropWhile dg s)")
  from mh have m: "m = takeWhile dg s @ g @ fst (take_fraction dg r)"
    using tg by (auto simp: match_here_def split: if_splits)
  have s: "s = ds @ (concat gs @ fr) @ post'" using dec m' by simp
  have tw: "takeWhile dg s = ds @ takeWhile dg ((concat gs @ fr) @ post')"
    unfolding s using ds(2) by (rule takeWhile_all)
  show ?thesis
  proof (cases "concat gs @ fr = []")
    case True
    then have "m' = ds" using m' by simp
    then show ?thesis using m tw by simp
  next
    case False
    from tail_starts[OF gs fr False] obtain c t where
      ct: "concat gs @ fr = c # t" and c: "c = 44 \<or> c = 46" by blast
    have ndc: "\<not> dg c" using c nd by auto
    have tw': "takeWhile dg s = ds" using tw ndc by (simp add: ct)
    have dw: "dropWhile dg s = concat gs @ fr @ post'"
    proof -
      have "dropWhile dg s = dropWhile dg ((concat gs @ fr) @ post')"
        unfolding s using ds(2) by (rule dropWhile_all)
      also have "\<dots> = (concat gs @ fr) @ post'" using ndc by (simp add: ct)
      finally show ?thesis by simp
    qed
    from greedy_tail_longest[OF gs fr, of post'] tg
    have "length (concat gs @ fr) \<le> length (g @ fst (take_fraction dg r))"
      by (simp add: dw)
    then show ?thesis using m m' tw' by simp
  qed
qed

lemma search_first_match:
  assumes nd: "\<not> dg 44" "\<not> dg 46" and rs: "re_search dg msg = Some m"
  shows "first_match dg msg m"
proof -
  let ?pre = "takeWhile (\<lambda>c. \<not> dg c) msg"
  let ?rest = "dropWhile (\<lambda>c. \<not> dg c) msg"
  have mh: "match_here dg ?rest = Some m" using rs by (rule re_search_Some)
  from match_here_sound[OF mh] obtain post where
    rest: "?rest = m @ post" and pat: "number_pattern dg m" by blast
  have msg: "msg = ?pre @ m @ post" using rest by (metis takeWhile_dropWhile_id)
  have best: "length ?pre < length pre' \<or> (length ?pre = length pre' \<and> length m' \<le> length m)"
    if dec: "msg = pre' @ m' @ post'" and pat': "number_pattern dg m'" for pre' m' post'
  proof -
    from number_pattern_starts[OF pat'] obtain d t where m': "m' = d # t" and d: "dg d" by blast
    have le: "length ?pre \<le> length pre'"
    proof (rule ccontr)
      assume "\<not> length ?pre \<le> length pre'"
      then have lt: "length pre' < length ?pre" by simp
      have "msg ! length pre' = d" using dec m' by simp
      moreover have "?pre ! length pre' = msg ! length pre'"
        using lt by (rule takeWhile_nth)
      moreover have "?pre ! length pre' \<in> set ?pre" using lt by simp
      ultimately have "d \<in> set ?pre" by simp
      then have "\<not> dg d" by (auto dest: set_takeWhileD)
      with d show False by simp
    qed
    show ?thesis
    proof (cases "length ?pre = length pre'")
      case False
      with le show ?thesis by simp
    next
      case True
      have "?pre @ ?rest = msg" by (rule takeWhile_dropWhile_id)
      also note dec
      finally have "?pre @ ?rest = pre' @ (m' @ post')" .
      with True have "?rest = m' @ post'"
        using append_eq_append_conv[of ?pre pre' ?rest "m' @ post'"] by blast
      from match_here_longest[OF nd mh this pat'] True show ?thesis by simp
    qed
  qed
  show ?thesis
    unfolding first_match_def
    using msg pat best by blast
qed

lemma no_digit_no_match:
  assumes "\<forall>c \<in> set msg. \<not> dg c" and "sublist m msg"
  shows "\<not> number_pattern dg m"
proof
  assume "number_pattern dg m"
  from number_pattern_starts[OF this] obtain d t where m: "m = d # t" and d: "dg d" by blast
  from assms(2) have "set m \<subseteq> set msg" by (auto simp: sublist_def)
  with m have "d \<in> set msg" by auto
  with assms(1) d show False by simp
qed

lemma stripped_is_decimal:
  assumes nd: "\<not> dg 44" "\<not> dg 46" and pat: "number_pattern dg m"
  shows "decimal_literal dg (filter (\<lambda>c. c \<noteq> 44) m)"
proof -
  from pat obtain ds gs fr where
    m: "m = ds @ concat gs @ fr" and ds: "ds \<noteq> []" "\<forall>c \<in> set ds. dg c" and
    gs: "\<forall>g \<in> set gs. is_group dg g" and fr: "fr = [] \<or> is_fraction dg fr"
    by (auto simp: number_pattern_def)
  have dsf: "filter (\<lambda>c. c \<noteq> 44) ds = ds"
    using ds(2) nd(1) by (auto simp: filter_id_conv)
  have gdig: "\<forall>c \<in> set (filter (\<lambda>c. c \<noteq> 44) (concat gs)). dg c"
    using gs by (auto simp: is_group_def)
  have frf: "filter (\<lambda>c. c \<noteq> 44) fr = fr"
    using fr nd(1) by (auto simp: is_fraction_def filter_id_conv)
  let ?ip = "ds @ filter (\<lambda>c. c \<noteq> 44) (concat gs)"
  have str: "filter (\<lambda>c. c \<noteq> 44) m = ?ip @ fr" by (simp add: m dsf frf)
  have ip: "\<forall>c \<in> set ?ip. dg c" using ds(2) gdig by auto
  have frnd: "takeWhile dg fr = []" "dropWhile dg fr = fr"
    using fr nd(2) by (auto simp: is_fraction_def)
  have tw: "takeWhile dg (?ip @ fr) = ?ip"
    using takeWhile_all[OF ip, of fr] frnd by simp
  have dw: "dropWhile dg (?ip @ fr) = fr"
    using dropWhile_all[OF ip, of fr] frnd by simp
  show ?thesis
    unfolding decimal_literal_def str tw dw
    using ds(1) fr by (auto simp: is_fraction_def)
qed

section \<open>Message Parser: the algorithm\<close>

lemma contains_any_mentions: "contains_any msg keywords = mentions msg keywords"
  by (simp add: contains_any_def mentions_def list_ex_iff)

lemma classify_spec: "classify msg = (spec_type msg, spec_category msg)"
  by (simp add: classify_def spec_type_def spec_category_def contains_any_mentions
      expense_groups_def) (simp add: mentions_def)

text \<open>
  C3. For a runtime in which the comma and the full stop are no digits and \<open>float\<close> reads
  every decimal literal (its value is \<open>fl\<close>), and for every input string: the parser returns
  the transaction type and the category of the specification and the input as description;
  the amount is \<open>None\<close> when no substring matches the pattern, and otherwise \<open>float\<close> of the
  first match without its commas.
\<close>

theorem parse_message_algorithm:
  assumes "\<not> isdigit rt 44" and "\<not> isdigit rt 46"
    and "\<forall>s. decimal_literal (isdigit rt) s \<longrightarrow> float_of_str rt s = Inr (fl s)"
  shows "\<exists>amt. parse_message rt (PStr msg)
             = Inr [(''transaction_type'', PStr (spec_type msg)),
                    (''category'', PStr (spec_category msg)),
                    (''description'', PStr msg), (''amount'', amt)]
         \<and> ((amt = PNone \<and> (\<forall>m. sublist m msg \<longrightarrow> \<not> number_pattern (isdigit rt) m))
            \<or> (\<exists>m. first_match (isdigit rt) msg m
                   \<and> amt = PNum (fl (filter (\<lambda>c. c \<noteq> 44) m))))"
proof (cases "re_search (isdigit rt) msg")
  case None
  then have nodigit: "\<forall>c \<in> set msg. \<not> isdigit rt c" by (simp add: re_search_None)
  have amt: "parse_amount rt msg = Inr PNone" by (simp add: parse_amount_def None)
  have "\<forall>m. sublist m msg \<longrightarrow> \<not> number_pattern (isdigit rt) m"
    using no_digit_no_match[OF nodigit] by blast
  then show ?thesis
    by (intro exI[of _ PNone])
       (simp add: parse_message_def parse_body_def amt classify_spec)
next
  case (Some m)
  from search_first_match[OF assms(1,2) Some] have fm: "first_match (isdigit rt) msg m" .
  then have "number_pattern (isdigit rt) m" by (auto simp: first_match_def)
  from stripped_is_decimal[OF assms(1,2) this] assms(3)
  have fl: "float_of_str rt (filter (\<lambda>c. c \<noteq> 44) m) = Inr (fl (filter (\<lambda>c. c \<noteq> 44) m))"
    by blast
  have amt: "parse_amount rt msg = Inr (PNum (fl (filter (\<lambda>c. c \<noteq> 44) m)))"
    by (simp add: parse_amount_def Some fl)
  show ?thesis
    using fm
    by (intro exI[of _ "PNum (fl (filter (\<lambda>c. c \<noteq> 44) m))"])
       (auto simp: parse_message_def parse_body_def amt classify_spec)
qed

lemma lunch_parsed:
  "parse_message example_runtime (PStr lunch_message)
     = Inr [(''transaction_type'', PStr expense_tag), (''category'', PStr cat_food),
            (''description'', PStr lunch_message), (''amount'', PNum 850)]"
  by (simp add: parse_message_def parse_body_def parse_amount_def classify_def
      contains_any_def match_here_def take_fraction_def example_runtime_def example_float_def
      decimal_literal_def digits_value_def ascii_digit_def lunch_message_def
      income_keywords_def food_keywords_def kw_salary_def kw_bonus_def kw_award_def
      sublist_Cons_right)

lemma grouped_parsed:
  "parse_message example_runtime (PStr grouped_message)
     = Inr [(''transaction_type'', PStr income_tag), (''category'', PStr cat_salary),
            (''description'', PStr grouped_message), (''amount'', PNum (2469135 / 2))]"
  by (simp add: parse_message_def parse_body_def parse_amount_def classify_def
      contains_any_def match_here_def take_fraction_def example_runtime_def example_float_def
      decimal_literal_def digits_value_def ascii_digit_def grouped_message_def
      income_keywords_def kw_salary_def kw_bonus_def kw_award_def
      sublist_Cons_right)

theorem parse_message_algorithm_witness:
  "parse_message example_runtime (PStr lunch_message)
     = Inr [(''transaction_type'', PStr expense_tag), (''category'', PStr cat_food),
            (''description'', PStr lunch_message), (''amount'', PNum 850)]
   \<and> (\<exists>m. first_match ascii_digit lunch_message m
          \<and> example_float (filter (\<lambda>c. c \<noteq> 44) m) = Inr 850)
   \<and> parse_message example_runtime (PStr grouped_message)
     = Inr [(''transaction_type'', PStr income_tag), (''category'', PStr cat_salary),
            (''description'', PStr grouped_message), (''amount'', PNum (2469135 / 2))]"
proof -
  define fl where "fl = (\<lambda>s. case example_float s of Inr x \<Rightarrow> x | Inl e \<Rightarrow> 0)"
  have ok: "\<forall>s. decimal_literal (isdigit example_runtime) s
              \<longrightarrow> float_of_str example_runtime s = Inr (fl s)"
    by (simp add: example_runtime_def example_float_def fl_def)
  have nd: "\<not> isdigit example_runtime 44" "\<not> isdigit example_runtime 46"
    by (simp_all add: example_runtime_def ascii_digit_def)
  from parse_message_algorithm[OF nd ok, of lunch_message] obtain amt where
    p: "parse_message example_runtime (PStr lunch_message)
          = Inr [(''transaction_type'', PStr (spec_type lunch_message)),
                 (''category'', PStr (spec_category lunch_message)),
                 (''description'', PStr lunch_message), (''amount'', amt)]" and
    d: "(amt = PNone \<and> (\<forall>m. sublist m lunch_message
                              \<longrightarrow> \<not> number_pattern (isdigit example_runtime) m))
        \<or> (\<exists>m. first_match (isdigit example_runtime) lunch_message m
               \<and> amt = PNum (fl (filter (\<lambda>c. c \<noteq> 44) m)))"
    by blast
  from p lunch_parsed have amt: "amt = PNum 850" by simp
  with d obtain m where
    fm: "first_match ascii_digit lunch_message m" and v: "fl (filter (\<lambda>c. c \<noteq> 44) m) = 850"
    by (auto simp: example_runtime_def)
  have dec: "decimal_literal ascii_digit (filter (\<lambda>c. c \<noteq> 44) m)"
    using fm stripped_is_decimal[of ascii_digit m]
    by (auto simp: first_match_def ascii_digit_def)
  then have "example_float (filter (\<lambda>c. c \<noteq> 44) m) = Inr 850"
    using v by (simp add: fl_def example_float_def)
  with fm have "\<exists>m. first_match ascii_digit lunch_message m
          \<and> example_float (filter (\<lambda>c. c \<noteq> 44) m) = Inr 850"
    by blast
  with lunch_parsed grouped_parsed show ?thesis by (intro conjI)
qed


section \<open>Message Parser: no exception\<close>

text \<open>
  C8. For every runtime and every input (a string, the empty string, or any other value),
  the parser returns a result and raises nothing; whenever the body of its \<open>try\<close> block
  fails, the result is the default one: expense, the category for other, the input as
  description, no amount. The empty string gives that result without a failure.
\<close>

theorem parse_message_never_raises:
  "(\<exists>parsed. parse_message rt message_text = Inr parsed)
   \<and> (\<forall>e. parse_body rt message_text = Inl e \<longrightarrow>
         parse_message rt message_text
           = Inr [(''transaction_type'', PStr expense_tag), (''category'', PStr cat_other),
                  (''description'', message_text), (''amount'', PNone)])
   \<and> parse_message rt (PStr [])
       = Inr [(''transaction_type'', PStr expense_tag), (''category'', PStr cat_other),
              (''description'', PStr []), (''amount'', PNone)]"
proof (intro conjI allI impI)
  show "\<exists>parsed. parse_message rt message_text = Inr parsed"
    by (cases "parse_body rt message_text") (simp_all add: parse_message_def)
next
  fix e assume "parse_body rt message_text = Inl e"
  then show "parse_message rt message_text
           = Inr [(''transaction_type'', PStr expense_tag), (''category'', PStr cat_other),
                  (''description'', message_text), (''amount'', PNone)]"
    by (simp add: parse_message_def default_parsed_def)
next
  show "parse_message rt (PStr [])
       = Inr [(''transaction_type'', PStr expense_tag), (''category'', PStr cat_other),
              (''description'', PStr []), (''amount'', PNone)]"
    by (simp add: parse_message_def parse_body_def parse_amount_def classify_def
        contains_any_def income_keywords_def food_keywords_def transport_keywords_def
        housing_keywords_def utilities_keywords_def medical_keywords_def
        entertainment_keywords_def shopping_keywords_def kw_salary_def kw_bonus_def
        kw_award_def)
qed

theorem parse_message_never_raises_witness:
  "parse_body failing_float_runtime (PStr lunch_message) = Inl ValueError
   \<and> parse_message failing_float_runtime (PStr lunch_message)
       = Inr [(''transaction_type'', PStr expense_tag), (''category'', PStr cat_other),
              (''description'', PStr lunch_message), (''amount'', PNone)]
   \<and> parse_body example_runtime (PNum 5) = Inl TypeError
   \<and> parse_message example_runtime (PNum 5)
       = Inr [(''transaction_type'', PStr expense_tag), (''category'', PStr cat_other),
              (''description'', PNum 5), (''amount'', PNone)]"
proof -
  have b1: "parse_body failing_float_runtime (PStr lunch_message) = Inl ValueError"
    by (simp add: parse_body_def parse_amount_def match_here_def failing_float_runtime_def
        example_runtime_def ascii_digit_def lunch_message_def)
  have b2: "parse_body example_runtime (PNum 5) = Inl TypeError"
    by (simp add: parse_body_def)
  note t1 = parse_message_never_raises[of failing_float_runtime "PStr lunch_message",
      THEN conjunct2, THEN conjunct1, rule_format, OF b1]
  note t2 = parse_message_never_raises[of example_runtime "PNum 5",
      THEN conjunct2, THEN conjunct1, rule_format, OF b2]
  from b1 t1 b2 t2 show ?thesis by (intro conjI)
qed

section \<open>Ingestion Orchestrator: the batch\<close>

lemma parse_message_keys:
  "parse_message rt v = Inr pd \<Longrightarrow>
     \<exists>a b c d. pd = [(''transaction_type'', a), (''category'', b), (''description'', c),
                      (''amount'', d)]"
  by (auto simp: parse_message_def parse_body_def default_parsed_def
           split: sum.splits pyval.splits prod.splits)

lemma parse_message_total: "\<exists>pd. parse_message rt v = Inr pd"
  by (cases "parse_body rt v") (simp_all add: parse_message_def)

lemma line_item_key: "line_item lmn ts a b c d u t [] ''lmn'' = Some (PStr lmn)"
  by (simp add: line_item_def dict_update_def drop_none_def)

text \<open>
  The call to the storage service is the only fallible step of a write, and an accepted
  call puts the record into the table.
\<close>

lemma put_item_effect:
  assumes "item kn = Some (PStr k)"
  shows "put_item kn w item
           = (case fault w (calls w) of
                None \<Rightarrow> (Inr (), w\<lparr>calls := Suc (calls w), rows := put_row kn item (rows w)\<rparr>)
              | Some m \<Rightarrow> (Inl (ClientError m), w\<lparr>calls := Suc (calls w)\<rparr>))"
  using assms by (auto simp: put_item_def storage_call_def put_row_def split: option.splits)

lemma write_line_transaction_effect:
  "write_line_transaction w lmn a b c d u t []
     = (case fault w (calls w) of
          None \<Rightarrow>
            (Success (line_item lmn (isoformat (clock w (ticks w))) a b c d u t []),
             w\<lparr>ticks := Suc (ticks w), calls := Suc (calls w),
               rows := put_row ''lmn'' (line_item lmn (isoformat (clock w (ticks w))) a b c d u t [])
                         (rows w)\<rparr>)
        | Some m \<Rightarrow> (Failure m, w\<lparr>ticks := Suc (ticks w), calls := Suc (calls w)\<rparr>))"
proof -
  let ?item = "line_item lmn (isoformat (clock w (ticks w))) a b c d u t []"
  have key: "?item ''lmn'' = Some (PStr lmn)" by (rule line_item_key)
  show ?thesis
    by (simp add: write_line_transaction_def get_current_timestamp_def now_def
        put_item_effect[of ?item "''lmn''" lmn, OF key] split: option.splits)
qed

lemma write_from_line_message_effect:
  assumes "parse_message rt t = Inr pd"
  shows "write_from_line_message rt w u t (Some pd)
     = (case fault w (calls w) of
          None \<Rightarrow>
            (Inr (Success (event_item rt (clock w (ticks w)) (clock w (Suc (ticks w))) u t)),
             w\<lparr>ticks := Suc (Suc (ticks w)), calls := Suc (calls w),
               rows := put_row ''lmn''
                         (event_item rt (clock w (ticks w)) (clock w (Suc (ticks w))) u t)
                         (rows w)\<rparr>)
        | Some m \<Rightarrow> (Inr (Failure m), w\<lparr>ticks := Suc (Suc (ticks w)), calls := Suc (calls w)\<rparr>))"
proof -
  from parse_message_keys[OF assms] obtain a b c d where
    pd: "pd = [(''transaction_type'', a), (''category'', b), (''description'', c),
               (''amount'', d)]" by blast
  show ?thesis
    by (simp add: write_from_line_message_def now_def pd dict_update_def Let_def
        write_line_transaction_effect event_item_def assms[unfolded pd]
        split: option.splits)
qed

text \<open>One step of the loop on an event that carries a user and a text.\<close>

lemma process_events_step:
  assumes "event_fields ev = Inr (Some (u, t))"
  shows "process_events rt w (ev # evs) c
           = (case fault w (calls w) of
                None \<Rightarrow>
                  process_events rt
                    (w\<lparr>ticks := Suc (Suc (ticks w)), calls := Suc (calls w),
                       rows := put_row ''lmn''
                         (event_item rt (clock w (ticks w)) (clock w (Suc (ticks w))) u t)
                         (rows w)\<rparr>) evs (Suc c)
              | Some m \<Rightarrow>
                  process_events rt
                    (w\<lparr>ticks := Suc (Suc (ticks w)), calls := Suc (calls w)\<rparr>) evs c)"
proof -
  from parse_message_total[of rt t] obtain pd where pd: "parse_message rt t = Inr pd" by blast
  show ?thesis
    by (simp add: assms pd write_from_line_message_effect[OF pd] split: option.splits)
qed

text \<open>The loop on a batch in which no event raises.\<close>

lemma process_events_exact:
  assumes "\<forall>ev \<in> set events. \<exists>r. event_fields ev = Inr r"
  shows "process_events rt w events c
           = (Inr (c + length (written_items rt (fault w) (clock w) (calls w) (ticks w)
                                 (eligible events))),
              w\<lparr>ticks := ticks w + 2 * length (eligible events),
                calls := calls w + length (eligible events),
                rows := fold (put_row ''lmn'')
                          (written_items rt (fault w) (clock w) (calls w) (ticks w)
                             (eligible events)) (rows w)\<rparr>)"
  using assms
proof (induction events arbitrary: w c)
  case Nil
  show ?case by (simp add: eligible_def List.map_filter_simps)
next
  case (Cons ev events)
  from Cons.prems obtain r where r: "event_fields ev = Inr r" by auto
  have rest: "\<forall>ev \<in> set events. \<exists>r. event_fields ev = Inr r" using Cons.prems by simp
  show ?case
  proof (cases r)
    case None
    have el: "eligible (ev # events) = eligible events"
      by (simp add: eligible_def List.map_filter_simps r None)
    have "process_events rt w (ev # events) c = process_events rt w events c"
      by (simp add: r None)
    then show ?thesis using Cons.IH[OF rest, of w c] by (simp add: el)
  next
    case (Some p)
    obtain u t where p: "p = (u, t)" by (cases p)
    have el: "eligible (ev # events) = (u, t) # eligible events"
      by (simp add: eligible_def List.map_filter_simps r Some p)
    have ef: "event_fields ev = Inr (Some (u, t))" using r Some p by simp
    show ?thesis
    proof (cases "fault w (calls w)")
      case None
      show ?thesis
        unfolding process_events_step[OF ef] el
        by (simp add: None Cons.IH[OF rest])
    next
      case (Some m)
      show ?thesis
        unfolding process_events_step[OF ef] el
        by (simp add: Some Cons.IH[OF rest])
    qed
  qed
qed

lemma written_items_count:
  "length (written_items rt flt clk c t es)
     = length (filter (\<lambda>i. flt (c + i) = None) [0..<length es])"
proof (induction es arbitrary: c t)
  case Nil
  show ?case by simp
next
  case (Cons e es)
  obtain u m where e: "e = (u, m)" by (cases e)
  have "[0..<Suc (length es)] = 0 # map Suc [0..<length es]"
    by (simp add: upt_conv_Cons map_Suc_upt del: upt_Suc)
  then show ?case
    using Cons.IH[of "Suc c" "Suc (Suc t)"]
    by (simp add: e filter_map o_def del: upt_Suc)
qed

lemma process_events_raise:
  assumes "\<exists>ev \<in> set events. \<exists>e. event_fields ev = Inl e"
  shows "\<exists>e w'. process_events rt w events c = (Inl e, w')"
  using assms
proof (induction events arbitrary: w c)
  case Nil
  then show ?case by simp
next
  case (Cons ev events)
  show ?case
  proof (cases "event_fields ev")
    case (Inl e)
    then show ?thesis by simp
  next
    case (Inr r)
    with Cons.prems have rest: "\<exists>ev \<in> set events. \<exists>e. event_fields ev = Inl e" by auto
    show ?thesis
    proof (cases r)
      case None
      then show ?thesis using Cons.IH[OF rest, of w c] Inr by simp
    next
      case (Some p)
      obtain u t where p: "p = (u, t)" by (cases p)
      have ef: "event_fields ev = Inr (Some (u, t))" using Inr Some p by simp
      show ?thesis
        unfolding process_events_step[OF ef]
        by (cases "fault w (calls w)") (simp_all add: Cons.IH[OF rest])
    qed
  qed
qed

text \<open>
  C5. When the events of the payload can be read and no event raises (each is a dictionary
  of the expected shape), the result is a success whatever the storage does. Every event
  with a user and a text makes its call to the storage service; a call that fails is skipped
  and the loop goes on with the next event. The records written are \<open>written_items\<close>: the
  record of each such event whose call is accepted, in the order of the events.
  \<open>processed_count\<close> is the number of these records, the table after the batch is the
  table before with these records put into it one after the other, and their number is the
  number of the calls that were accepted. Whether a call is accepted is an input, \<open>fault\<close>:
  it stands for every reason the storage client has to raise, a value that it refuses to
  store among them. The result is a tagged failure only when an exception reaches the \<open>try\<close>
  of the batch: the payload or its events cannot be read, or an event raises.
\<close>

theorem batch_isolation:
  "(\<forall>e. py_get body ''events'' (PList []) = Inl e \<longrightarrow>
        process_line_messages rt w body = (Failure (str_of_error e), w))
   \<and> (\<forall>evs e. py_get body ''events'' (PList []) = Inr evs \<and> py_iter evs = Inl e \<longrightarrow>
        process_line_messages rt w body = (Failure (str_of_error e), w))
   \<and> (\<forall>evs events. py_get body ''events'' (PList []) = Inr evs \<and> py_iter evs = Inr events \<longrightarrow>
        (if \<forall>ev \<in> set events. \<exists>r. event_fields ev = Inr r
         then process_line_messages rt w body
                = (Success (length (written_items rt (fault w) (clock w) (calls w) (ticks w)
                                      (eligible events))),
                   w\<lparr>ticks := ticks w + 2 * length (eligible events),
                     calls := calls w + length (eligible events),
                     rows := fold (put_row ''lmn'')
                               (written_items rt (fault w) (clock w) (calls w) (ticks w)
                                  (eligible events)) (rows w)\<rparr>)
              \<and> length (written_items rt (fault w) (clock w) (calls w) (ticks w)
                           (eligible events))
                  = accepted w (length (eligible events))
         else \<exists>e w'. process_line_messages rt w body = (Failure (str_of_error e), w')))"
proof (intro conjI allI impI)
  fix e assume "py_get body ''events'' (PList []) = Inl e"
  then show "process_line_messages rt w body = (Failure (str_of_error e), w)"
    by (simp add: process_line_messages_def)
next
  fix evs e assume "py_get body ''events'' (PList []) = Inr evs \<and> py_iter evs = Inl e"
  then show "process_line_messages rt w body = (Failure (str_of_error e), w)"
    by (simp add: process_line_messages_def)
next
  fix evs events
  assume a: "py_get body ''events'' (PList []) = Inr evs \<and> py_iter evs = Inr events"
  let ?written = "written_items rt (fault w) (clock w) (calls w) (ticks w) (eligible events)"
  show "if \<forall>ev \<in> set events. \<exists>r. event_fields ev = Inr r
        then process_line_messages rt w body
                = (Success (length ?written),
                   w\<lparr>ticks := ticks w + 2 * length (eligible events),
                     calls := calls w + length (eligible events),
                     rows := fold (put_row ''lmn'') ?written (rows w)\<rparr>)
              \<and> length ?written = accepted w (length (eligible events))
        else \<exists>e w'. process_line_messages rt w body = (Failure (str_of_error e), w')"
  proof (cases "\<forall>ev \<in> set events. \<exists>r. event_fields ev = Inr r")
    case True
    have "process_line_messages rt w body
                = (Success (length ?written),
                   w\<lparr>ticks := ticks w + 2 * length (eligible events),
                     calls := calls w + length (eligible events),
                     rows := fold (put_row ''lmn'') ?written (rows w)\<rparr>)"
      using a by (simp add: process_line_messages_def process_events_exact[OF True])
    moreover have "length ?written = accepted w (length (eligible events))"
      by (simp add: written_items_count accepted_def)
    ultimately show ?thesis by (subst if_P[OF True]) (rule conjI)
  next
    case False
    then have "\<exists>ev \<in> set events. \<exists>e. event_fields ev = Inl e"
      by (metis sum.exhaust)
    from process_events_raise[OF this, of rt w 0] obtain e w' where
      "process_events rt w events 0 = (Inl e, w')" by auto
    then have "process_line_messages rt w body = (Failure (str_of_error e), w')"
      using a by (simp add: process_line_messages_def)
    then have "\<exists>e w'. process_line_messages rt w body = (Failure (str_of_error e), w')"
      by (intro exI)
    then show ?thesis by (subst if_not_P[OF False])
  qed
qed

text \<open>The attributes of the record of an event.\<close>

lemma event_item_key:
  "event_item rt d1 d2 u m ''lmn''
     = Some (PStr (str ''lmn_'' @ format_in_fstring rt u @ str ''_'' @ strftime_lmn d1))"
  by (simp add: event_item_def Let_def line_item_key)

lemma event_item_message:
  "event_item rt d1 d2 u m ''line_message'' = (if m = PNone then None else Some m)"
  "event_item rt d1 d2 u m ''line_user_id'' = (if u = PNone then None else Some u)"
  by (simp_all add: event_item_def Let_def line_item_def dict_update_def drop_none_def)

lemma event_item_parsed:
  assumes "parse_message rt m
             = Inr [(''transaction_type'', a), (''category'', b), (''description'', c),
                    (''amount'', d)]"
  shows "event_item rt d1 d2 u m ''transaction_type'' = (if a = PNone then None else Some a)"
    and "event_item rt d1 d2 u m ''category'' = (if b = PNone then None else Some b)"
    and "event_item rt d1 d2 u m ''description'' = (if c = PNone then None else Some c)"
    and "event_item rt d1 d2 u m ''amount'' = (if d = PNone then None else Some d)"
  by (simp_all add: event_item_def Let_def assms line_item_def dict_update_def drop_none_def)

lemma dinner_parsed:
  "parse_message example_runtime (PStr dinner_message)
     = Inr [(''transaction_type'', PStr expense_tag), (''category'', PStr cat_food),
            (''description'', PStr dinner_message), (''amount'', PNone)]"
  by (simp add: parse_message_def parse_body_def parse_amount_def classify_def
      contains_any_def match_here_def take_fraction_def example_runtime_def example_float_def
      decimal_literal_def digits_value_def ascii_digit_def dinner_message_def
      income_keywords_def food_keywords_def kw_salary_def kw_bonus_def kw_award_def
      sublist_Cons_right)

lemma bus_parsed:
  "parse_message example_runtime (PStr bus_message)
     = Inr [(''transaction_type'', PStr expense_tag), (''category'', PStr cat_transport),
            (''description'', PStr bus_message), (''amount'', PNone)]"
  by (simp add: parse_message_def parse_body_def parse_amount_def classify_def
      contains_any_def match_here_def take_fraction_def example_runtime_def example_float_def
      decimal_literal_def digits_value_def ascii_digit_def bus_message_def
      income_keywords_def food_keywords_def transport_keywords_def
      kw_salary_def kw_bonus_def kw_award_def
      sublist_Cons_right)

lemma text_event_fields:
  "u \<noteq> [] \<Longrightarrow> t \<noteq> [] \<Longrightarrow> event_fields (text_event u t) = Inr (Some (PStr u, PStr t))"
  by (simp add: event_fields_def text_event_def)

lemma batch_events:
  "py_get batch_body ''events'' (PList [])
     = Inr (PList [text_event (str ''U1'') dinner_message,
                   text_event (str ''U1'') rent_message,
                   text_event (str ''U2'') bus_message])"
  by (simp add: batch_body_def)

lemma broken_events:
  "py_get broken_body ''events'' (PList [])
     = Inr (PList [text_event (str ''U1'') dinner_message, PStr (str ''x'')])"
  by (simp add: broken_body_def)

lemma example_texts: "str ''U1'' \<noteq> []" "str ''U2'' \<noteq> []" "dinner_message \<noteq> []"
  "rent_message \<noteq> []" "bus_message \<noteq> []"
  by (simp_all add: str_def dinner_message_def rent_message_def bus_message_def)

lemma batch_well_formed:
  "\<forall>ev \<in> set [text_event (str ''U1'') dinner_message, text_event (str ''U1'') rent_message,
                text_event (str ''U2'') bus_message]. \<exists>r. event_fields ev = Inr r"
  by (simp add: text_event_fields example_texts)

lemma broken_not_well_formed:
  "\<not> (\<forall>ev \<in> set [text_event (str ''U1'') dinner_message, PStr (str ''x'')].
         \<exists>r. event_fields ev = Inr r)"
  by (simp add: event_fields_def)

lemma batch_eligible:
  "eligible [text_event (str ''U1'') dinner_message, text_event (str ''U1'') rent_message,
             text_event (str ''U2'') bus_message]
     = [(PStr (str ''U1''), PStr dinner_message), (PStr (str ''U1''), PStr rent_message),
        (PStr (str ''U2''), PStr bus_message)]"
  by (simp add: eligible_def List.map_filter_simps text_event_fields example_texts)

lemma flaky_start: "calls flaky_world = 0" "ticks flaky_world = 0" "rows flaky_world = []"
  by (simp_all add: flaky_world_def)

text \<open>The second call fails: the records written are those of the first and the third event.\<close>

lemma batch_written:
  "written_items example_runtime (fault flaky_world) (clock flaky_world) 0 0
     [(PStr (str ''U1''), PStr dinner_message), (PStr (str ''U1''), PStr rent_message),
      (PStr (str ''U2''), PStr bus_message)]
     = [event_item example_runtime (clock flaky_world 0) (clock flaky_world 1)
          (PStr (str ''U1'')) (PStr dinner_message),
        event_item example_runtime (clock flaky_world 4) (clock flaky_world 5)
          (PStr (str ''U2'')) (PStr bus_message)]"
  by (simp add: flaky_world_def numeral_2_eq_2 numeral_3_eq_3 eval_nat_numeral)

lemma batch_keys_differ:
  "event_item example_runtime (clock flaky_world 0) (clock flaky_world 1)
     (PStr (str ''U1'')) (PStr dinner_message) ''lmn''
   \<noteq> event_item example_runtime (clock flaky_world 4) (clock flaky_world 5)
       (PStr (str ''U2'')) (PStr bus_message) ''lmn''"
  by (simp add: event_item_key format_in_fstring_def str_def)

lemma batch_rows:
  "fold (put_row ''lmn'')
     [event_item example_runtime (clock flaky_world 0) (clock flaky_world 1)
        (PStr (str ''U1'')) (PStr dinner_message),
      event_item example_runtime (clock flaky_world 4) (clock flaky_world 5)
        (PStr (str ''U2'')) (PStr bus_message)] []
     = [event_item example_runtime (clock flaky_world 0) (clock flaky_world 1)
          (PStr (str ''U1'')) (PStr dinner_message),
        event_item example_runtime (clock flaky_world 4) (clock flaky_world 5)
          (PStr (str ''U2'')) (PStr bus_message)]"
  using batch_keys_differ by (simp add: put_row_def)

theorem batch_isolation_witness:
  "(\<exists>w'. process_line_messages example_runtime flaky_world batch_body = (Success 2, w')
         \<and> calls w' = 3
         \<and> map (\<lambda>r. r ''line_message'') (rows w')
             = [Some (PStr dinner_message), Some (PStr bus_message)]
         \<and> map (\<lambda>r. r ''line_user_id'') (rows w')
             = [Some (PStr (str ''U1'')), Some (PStr (str ''U2''))]
         \<and> map (\<lambda>r. r ''category'') (rows w')
             = [Some (PStr cat_food), Some (PStr cat_transport)]
         \<and> map (\<lambda>r. r ''amount'') (rows w') = [None, None])
   \<and> (\<exists>e w'. process_line_messages example_runtime flaky_world broken_body
                 = (Failure (str_of_error e), w'))"
proof -
  let ?events = "[text_event (str ''U1'') dinner_message, text_event (str ''U1'') rent_message,
                  text_event (str ''U2'') bus_message]"
  let ?broken = "[text_event (str ''U1'') dinner_message, PStr (str ''x'')]"
  let ?i1 = "event_item example_runtime (clock flaky_world 0) (clock flaky_world 1)
               (PStr (str ''U1'')) (PStr dinner_message)"
  let ?i3 = "event_item example_runtime (clock flaky_world 4) (clock flaky_world 5)
               (PStr (str ''U2'')) (PStr bus_message)"
  let ?w' = "flaky_world\<lparr>ticks := 6, calls := 3, rows := [?i1, ?i3]\<rparr>"
  have it: "py_iter (PList ?events) = Inr ?events" "py_iter (PList ?broken) = Inr ?broken"
    by simp_all
  have n: "length [?i1, ?i3] = 2"
     "0 + 2 * length [(PStr (str ''U1''), PStr dinner_message),
                      (PStr (str ''U1''), PStr rent_message),
                      (PStr (str ''U2''), PStr bus_message)] = 6"
     "0 + length [(PStr (str ''U1''), PStr dinner_message),
                  (PStr (str ''U1''), PStr rent_message),
                  (PStr (str ''U2''), PStr bus_message)] = 3"
    by simp_all
  note t = batch_isolation[of batch_body example_runtime flaky_world,
      THEN conjunct2, THEN conjunct2, rule_format, OF conjI[OF batch_events it(1)],
      unfolded if_P[OF batch_well_formed], THEN conjunct1]
  note b = batch_isolation[of broken_body example_runtime flaky_world,
      THEN conjunct2, THEN conjunct2, rule_format, OF conjI[OF broken_events it(2)],
      unfolded if_not_P[OF broken_not_well_formed]]
  note t1 = t[unfolded batch_eligible]
  note t2 = t1[unfolded flaky_start]
  note t3 = t2[unfolded batch_written]
  note t4 = t3[unfolded batch_rows]
  have res: "process_line_messages example_runtime flaky_world batch_body = (Success 2, ?w')"
    by (rule t4[unfolded n])
  have c: "calls ?w' = 3"
    by simp
  have m: "map (\<lambda>r. r ''line_message'') (rows ?w')
             = [Some (PStr dinner_message), Some (PStr bus_message)]"
    by (simp add: event_item_message)
  have u: "map (\<lambda>r. r ''line_user_id'') (rows ?w')
             = [Some (PStr (str ''U1'')), Some (PStr (str ''U2''))]"
    by (simp add: event_item_message)
  have g: "map (\<lambda>r. r ''category'') (rows ?w')
             = [Some (PStr cat_food), Some (PStr cat_transport)]"
    by (simp add: event_item_parsed[OF dinner_parsed] event_item_parsed[OF bus_parsed])
  have a: "map (\<lambda>r. r ''amount'') (rows ?w') = [None, None]"
    by (simp add: event_item_parsed[OF dinner_parsed] event_item_parsed[OF bus_parsed])
  show ?thesis
    by (intro conjI exI[of _ ?w']) (rule res c m u g a b)+
qed

end
